theory Spec2Isabelle
  imports Complex_Main
begin

section \<open>JavaScript values, objects and the heap\<close>

text \<open>
  The facade is JavaScript. Its values are the primitives and references to objects;
  objects live in a heap and are compared by reference. A handle of the native engine
  binding (a \<open>NativeDb\<close> connection or a native prepared statement) is an opaque value
  \<open>VNative h\<close>.
\<close>

type_synonym addr = nat

datatype jsnum = NaN | NegZero | PosInfinity | NegInfinity | Finite rat

datatype jsval =
    VUndefined
  | VNull
  | VBool bool
  | VNum jsnum
  | VBigInt int
  | VStr string
  | VSymbol nat
  | VNative nat
  | VRef addr

text \<open>A data property with its three attributes.\<close>

record dprop =
  pvalue :: jsval
  writable :: bool
  enumerable :: bool
  configurable :: bool

text \<open>
  What an object is: an instance of a named class (\<open>Object\<close>, \<open>Statement\<close>,
  \<open>TypeError\<close>, \<open>SqliteError\<close>, ...), a function supplied by the user, or one of the
  closures built by \<open>wrapTxn\<close>, which captures \<open>mode\<close>, \<open>fn\<close> and \<open>db\<close>.
  An object carries data properties, in the order of their creation. Accessors and
  proxies are left out (a read never runs code), and so are prototype chains: a property
  that a read finds on the prototype, such as the empty \<open>message\<close> of an \<open>Error\<close> built
  without one, is listed with the object's own.
\<close>

datatype kind =
    Instance string
  | Function
  | Transaction string jsval jsval

record obj =
  kind :: kind
  props :: "(string \<times> dprop) list"

text \<open>
  A completion is a normal return or a \<open>throw\<close> of any value. The world is the heap, the
  state of the native engine, and the list of calls made on native handles so far
  (handle, method name, arguments), oldest first.
\<close>

datatype completion = Return jsval | Throw jsval

type_synonym event = "nat \<times> string \<times> jsval list"

record 'e world =
  heap :: "obj list"
  engine :: 'e
  trace :: "event list"

text \<open>
  What the facade consumes and does not define:
  \<^item> \<open>JSON_parse s h\<close> is \<open>JSON.parse(s)\<close> run on heap \<open>h\<close>: the parsed value and the heap
    holding it, or \<open>None\<close> when \<open>JSON.parse\<close> throws;
  \<^item> \<open>native h m args\<close> is the method \<open>m\<close> of the native handle \<open>h\<close>, acting on the heap
    and on the engine's state;
  \<^item> \<open>call f args\<close> is the call \<open>f(...args)\<close> of a function supplied by the user.
\<close>

record 'e host =
  JSON_parse :: "string \<Rightarrow> obj list \<Rightarrow> jsval option \<times> obj list"
  native :: "nat \<Rightarrow> string \<Rightarrow> jsval list \<Rightarrow> obj list \<Rightarrow> 'e \<Rightarrow> completion \<times> obj list \<times> 'e"
  call :: "jsval \<Rightarrow> jsval list \<Rightarrow> 'e world \<Rightarrow> completion \<times> 'e world"

text \<open>The object literal \<open>{}\<close>.\<close>

definition empty_object :: obj where
  "empty_object = \<lparr>kind = Instance ''Object'', props = []\<rparr>"

text \<open>
  The heap is the list of the objects allocated so far; an address is a position in it and
  allocation appends. JavaScript has no dangling reference; the model reads one as \<open>{}\<close>.
\<close>

definition obj_at :: "obj list \<Rightarrow> addr \<Rightarrow> obj" where
  "obj_at h a = (if a < length h then h ! a else empty_object)"

definition alloc :: "obj \<Rightarrow> 'e world \<Rightarrow> jsval \<times> 'e world" where
  "alloc ob w = (VRef (length (heap w)), w\<lparr>heap := heap w @ [ob]\<rparr>)"

text \<open>\<open>typeof v\<close>.\<close>

fun typeof :: "obj list \<Rightarrow> jsval \<Rightarrow> string" where
  "typeof h VUndefined = ''undefined''"
| "typeof h VNull = ''object''"
| "typeof h (VBool b) = ''boolean''"
| "typeof h (VNum n) = ''number''"
| "typeof h (VBigInt i) = ''bigint''"
| "typeof h (VStr s) = ''string''"
| "typeof h (VSymbol k) = ''symbol''"
| "typeof h (VNative n) = ''object''"
| "typeof h (VRef a) =
     (case kind (obj_at h a) of Instance c \<Rightarrow> ''object'' | _ \<Rightarrow> ''function'')"

text \<open>The truthiness test of \<open>&&\<close>, \<open>?:\<close> and \<open>if\<close>.\<close>

fun truthy :: "jsval \<Rightarrow> bool" where
  "truthy VUndefined = False"
| "truthy VNull = False"
| "truthy (VBool b) = b"
| "truthy (VNum n) = (n \<noteq> NaN \<and> n \<noteq> NegZero \<and> n \<noteq> Finite 0)"
| "truthy (VBigInt i) = (i \<noteq> 0)"
| "truthy (VStr s) = (s \<noteq> [])"
| "truthy (VSymbol k) = True"
| "truthy (VNative n) = True"
| "truthy (VRef a) = True"

text \<open>\<open>v == null\<close>: true of \<open>null\<close> and \<open>undefined\<close> only.\<close>

definition nullish :: "jsval \<Rightarrow> bool" where
  "nullish v = (v = VNull \<or> v = VUndefined)"

text \<open>
  \<open>field h a n\<close> reads the data property \<open>n\<close> of the object at \<open>a\<close>; \<open>property h v n\<close> is
  the read \<open>v.n\<close> on a value that is not \<open>null\<close> or \<open>undefined\<close> (each read site tests
  \<open>nullish\<close> first where the source can meet such a receiver). The names this program
  reads (\<open>message\<close>, \<open>libsqlError\<close>, \<open>code\<close>, \<open>rawCode\<close>, \<open>simple\<close>, \<open>db\<close>, \<open>stmt\<close>) are
  defined on no primitive wrapper and on no native handle, so they read \<open>undefined\<close> there.
\<close>

definition field :: "obj list \<Rightarrow> addr \<Rightarrow> string \<Rightarrow> jsval" where
  "field h a n = (case map_of (props (obj_at h a)) n of None \<Rightarrow> VUndefined | Some p \<Rightarrow> pvalue p)"

fun property :: "obj list \<Rightarrow> jsval \<Rightarrow> string \<Rightarrow> jsval" where
  "property h (VRef a) n = field h a n"
| "property h v n = VUndefined"

text \<open>\<open>new TypeError(msg)\<close>: the message is an own, non-enumerable property.\<close>

definition TypeError :: "string \<Rightarrow> obj" where
  "TypeError msg =
     \<lparr>kind = Instance ''TypeError'',
      props = [(''message'', \<lparr>pvalue = VStr msg, writable = True, enumerable = False,
                              configurable = True\<rparr>)]\<rparr>"

definition throw_TypeError :: "string \<Rightarrow> 'e world \<Rightarrow> completion \<times> 'e world" where
  "throw_TypeError msg w = (case alloc (TypeError msg) w of (t, w') \<Rightarrow> (Throw t, w'))"

text \<open>
  Modelled from the spec: the class \<open>SqliteError\<close> of \<open>sqlite-error.js\<close>, which is not
  among the sources. The spec gives a Normalized Error the three fields \<open>message\<close>,
  \<open>code\<close> and \<open>rawCode\<close>, set from the constructor's three arguments.
\<close>

definition SqliteError :: "jsval \<Rightarrow> jsval \<Rightarrow> jsval \<Rightarrow> obj" where
  "SqliteError message code rawCode =
     \<lparr>kind = Instance ''SqliteError'',
      props = [(''message'', \<lparr>pvalue = message, writable = True, enumerable = False,
                              configurable = True\<rparr>),
               (''code'', \<lparr>pvalue = code, writable = True, enumerable = True,
                           configurable = True\<rparr>),
               (''rawCode'', \<lparr>pvalue = rawCode, writable = True, enumerable = True,
                              configurable = True\<rparr>)]\<rparr>"

section \<open>The error normalizer\<close>

text \<open>
  \<^verbatim>\<open>
  function convertError(err) {
    if (typeof err.message === 'string') {
      try {
        const data = JSON.parse(err.message);
        if (data && data.libsqlError) {
          return new SqliteError(data.message, data.code, data.rawCode);
        }
      } catch (_) { }
    }
    return err;
  }
  \<close>
  Reading \<open>err.message\<close> off \<open>null\<close> or \<open>undefined\<close> raises a TypeError, outside the
  \<open>try\<close>. A value has type \<open>string\<close> exactly when it is a \<open>VStr\<close>.
\<close>

definition convertError :: "'e host \<Rightarrow> 'e world \<Rightarrow> jsval \<Rightarrow> completion \<times> 'e world" where
  "convertError H w err =
     (if nullish err
      then throw_TypeError ''Cannot read properties of null or undefined (reading message)'' w
      else
        (case property (heap w) err ''message'' of
           VStr s \<Rightarrow>
             (case JSON_parse H s (heap w) of
                (None, h1) \<Rightarrow> (Return err, w\<lparr>heap := h1\<rparr>)
              | (Some data, h1) \<Rightarrow>
                  if truthy data \<and> truthy (property h1 data ''libsqlError'')
                  then (case alloc (SqliteError (property h1 data ''message'')
                                                (property h1 data ''code'')
                                                (property h1 data ''rawCode''))
                                   (w\<lparr>heap := h1\<rparr>)
                        of (e, w') \<Rightarrow> (Return e, w'))
                  else (Return err, w\<lparr>heap := h1\<rparr>))
         | _ \<Rightarrow> (Return err, w)))"

text \<open>
  The \<open>convertError\<close> of \<open>wrapper.js\<close>, a file whose every method is a stub that throws
  \<open>not implemented\<close>; it reads the marker off the error itself:
  \<^verbatim>\<open>
  function convertError(err) {
    if (err.libsqlError) {
      return new SqliteError(err.message, err.code, err.rawCode);
    }
    return err;
  }
  \<close>
\<close>

definition wrapper_convertError :: "'e world \<Rightarrow> jsval \<Rightarrow> completion \<times> 'e world" where
  "wrapper_convertError w err =
     (if nullish err
      then throw_TypeError ''Cannot read properties of null or undefined (reading libsqlError)'' w
      else if truthy (property (heap w) err ''libsqlError'')
      then (case alloc (SqliteError (property (heap w) err ''message'')
                                    (property (heap w) err ''code'')
                                    (property (heap w) err ''rawCode'')) w
            of (e, w') \<Rightarrow> (Return e, w'))
      else (Return err, w))"

text \<open>The statement \<open>throw convertError(err)\<close> of every \<open>catch\<close> block.\<close>

definition throw_convertError :: "'e host \<Rightarrow> 'e world \<Rightarrow> jsval \<Rightarrow> completion \<times> 'e world" where
  "throw_convertError H w err =
     (case convertError H w err of
        (Return e, w') \<Rightarrow> (Throw e, w')
      | (Throw t, w') \<Rightarrow> (Throw t, w'))"

section \<open>Calls on native handles\<close>

text \<open>
  \<open>recv.m(...args)\<close> where \<open>recv\<close> is \<open>this.db\<close> or \<open>this.stmt\<close>, which the constructors
  set to a native handle. The call is recorded in the trace, then the engine runs. Were
  the receiver anything else, the call could not be made and JavaScript would raise a
  TypeError (the message texts are V8's).
\<close>

definition invoke_native ::
  "'e host \<Rightarrow> jsval \<Rightarrow> string \<Rightarrow> jsval list \<Rightarrow> 'e world \<Rightarrow> completion \<times> 'e world" where
  "invoke_native H recv m args w =
     (case recv of
        VNative h \<Rightarrow>
          (case native H h m args (heap w) (engine w) of
             (r, hp, e) \<Rightarrow> (r, \<lparr>heap = hp, engine = e, trace = trace w @ [(h, m, args)]\<rparr>))
      | VUndefined \<Rightarrow> throw_TypeError (''Cannot read properties of undefined (reading '' @ m @ '')'') w
      | VNull \<Rightarrow> throw_TypeError (''Cannot read properties of null (reading '' @ m @ '')'') w
      | _ \<Rightarrow> throw_TypeError (m @ '' is not a function'') w)"

section \<open>Statement\<close>

text \<open>\<open>constructor(stmt) { this.stmt = stmt; }\<close>\<close>

definition Statement :: "jsval \<Rightarrow> obj" where
  "Statement stmt =
     \<lparr>kind = Instance ''Statement'',
      props = [(''stmt'', \<lparr>pvalue = stmt, writable = True, enumerable = True,
                           configurable = True\<rparr>)]\<rparr>"

text \<open>\<open>pluck(pluckMode) { this.stmt.pluck(pluckMode); return this; }\<close>\<close>

definition Statement_pluck ::
  "'e host \<Rightarrow> jsval \<Rightarrow> jsval \<Rightarrow> 'e world \<Rightarrow> completion \<times> 'e world" where
  "Statement_pluck H this pluckMode w =
     (case invoke_native H (property (heap w) this ''stmt'') ''pluck'' [pluckMode] w of
        (Throw err, w') \<Rightarrow> (Throw err, w')
      | (Return u, w') \<Rightarrow> (Return this, w'))"

text \<open>
  \<^verbatim>\<open>
  run(...bindParameters) {
    try {
      return this.stmt.run(...bindParameters);
    } catch (err) {
      throw convertError(err);
    }
  }
  \<close>
  and the same for \<open>get\<close>, \<open>iterate\<close> and \<open>all\<close>.
\<close>

definition Statement_run ::
  "'e host \<Rightarrow> jsval \<Rightarrow> jsval list \<Rightarrow> 'e world \<Rightarrow> completion \<times> 'e world" where
  "Statement_run H this bindParameters w =
     (case invoke_native H (property (heap w) this ''stmt'') ''run'' bindParameters w of
        (Return v, w') \<Rightarrow> (Return v, w')
      | (Throw err, w') \<Rightarrow> throw_convertError H w' err)"

definition Statement_get ::
  "'e host \<Rightarrow> jsval \<Rightarrow> jsval list \<Rightarrow> 'e world \<Rightarrow> completion \<times> 'e world" where
  "Statement_get H this bindParameters w =
     (case invoke_native H (property (heap w) this ''stmt'') ''get'' bindParameters w of
        (Return v, w') \<Rightarrow> (Return v, w')
      | (Throw err, w') \<Rightarrow> throw_convertError H w' err)"

definition Statement_iterate ::
  "'e host \<Rightarrow> jsval \<Rightarrow> jsval list \<Rightarrow> 'e world \<Rightarrow> completion \<times> 'e world" where
  "Statement_iterate H this bindParameters w =
     (case invoke_native H (property (heap w) this ''stmt'') ''iterate'' bindParameters w of
        (Return v, w') \<Rightarrow> (Return v, w')
      | (Throw err, w') \<Rightarrow> throw_convertError H w' err)"

definition Statement_all ::
  "'e host \<Rightarrow> jsval \<Rightarrow> jsval list \<Rightarrow> 'e world \<Rightarrow> completion \<times> 'e world" where
  "Statement_all H this bindParameters w =
     (case invoke_native H (property (heap w) this ''stmt'') ''all'' bindParameters w of
        (Return v, w') \<Rightarrow> (Return v, w')
      | (Throw err, w') \<Rightarrow> throw_convertError H w' err)"

section \<open>Database\<close>

text \<open>
  \<^verbatim>\<open>
  prepare(sql) {
    try {
      return new Statement(this.db.prepare(sql));
    } catch (err) {
      throw convertError(err);
    }
  }
  \<close>
\<close>

definition Database_prepare ::
  "'e host \<Rightarrow> jsval \<Rightarrow> jsval \<Rightarrow> 'e world \<Rightarrow> completion \<times> 'e world" where
  "Database_prepare H this sql w =
     (case invoke_native H (property (heap w) this ''db'') ''prepare'' [sql] w of
        (Return stmt, w') \<Rightarrow> (case alloc (Statement stmt) w' of (s, w'') \<Rightarrow> (Return s, w''))
      | (Throw err, w') \<Rightarrow> throw_convertError H w' err)"

text \<open>
  \<^verbatim>\<open>
  exec(sql) {
    try {
      this.db.exec(sql);
    } catch (err) {
      throw convertError(err);
    }
  }
  \<close>
\<close>

definition Database_exec ::
  "'e host \<Rightarrow> jsval \<Rightarrow> jsval \<Rightarrow> 'e world \<Rightarrow> completion \<times> 'e world" where
  "Database_exec H this sql w =
     (case invoke_native H (property (heap w) this ''db'') ''exec'' [sql] w of
        (Return u, w') \<Rightarrow> (Return VUndefined, w')
      | (Throw err, w') \<Rightarrow> throw_convertError H w' err)"

subsection \<open>transaction\<close>

text \<open>
  \<open>Object.defineProperties(target, properties)\<close>, for data descriptors. A descriptor
  literal such as \<open>{ value: f }\<close> or \<open>{ value: this, enumerable: true }\<close> is a record of the
  fields it gives. A property that is absent is created, with \<open>false\<close> for every attribute
  the descriptor leaves out; a present one is changed unless it is non-configurable and
  the descriptor disagrees with it, which raises a TypeError.
\<close>

record descriptor =
  d_value :: "jsval option"
  d_writable :: "bool option"
  d_enumerable :: "bool option"
  d_configurable :: "bool option"

definition create_prop :: "descriptor \<Rightarrow> dprop" where
  "create_prop d =
     \<lparr>pvalue = (case d_value d of None \<Rightarrow> VUndefined | Some v \<Rightarrow> v),
      writable = (d_writable d = Some True),
      enumerable = (d_enumerable d = Some True),
      configurable = (d_configurable d = Some True)\<rparr>"

definition apply_desc :: "descriptor \<Rightarrow> dprop \<Rightarrow> dprop" where
  "apply_desc d p =
     \<lparr>pvalue = (case d_value d of None \<Rightarrow> pvalue p | Some v \<Rightarrow> v),
      writable = (case d_writable d of None \<Rightarrow> writable p | Some b \<Rightarrow> b),
      enumerable = (case d_enumerable d of None \<Rightarrow> enumerable p | Some b \<Rightarrow> b),
      configurable = (case d_configurable d of None \<Rightarrow> configurable p | Some b \<Rightarrow> b)\<rparr>"

definition rejects :: "dprop \<Rightarrow> descriptor \<Rightarrow> bool" where
  "rejects p d =
     (\<not> configurable p \<and>
      (d_configurable d = Some True
       \<or> (d_enumerable d \<noteq> None \<and> d_enumerable d \<noteq> Some (enumerable p))
       \<or> (\<not> writable p \<and>
           (d_writable d = Some True
            \<or> (d_value d \<noteq> None \<and> d_value d \<noteq> Some (pvalue p))))))"

definition define_property :: "obj \<Rightarrow> string \<Rightarrow> descriptor \<Rightarrow> obj option" where
  "define_property ob n d =
     (case map_of (props ob) n of
        None \<Rightarrow> Some (ob\<lparr>props := props ob @ [(n, create_prop d)]\<rparr>)
      | Some p \<Rightarrow>
          if rejects p d then None
          else Some (ob\<lparr>props := map (\<lambda>(k, q). if k = n then (k, apply_desc d q) else (k, q))
                                      (props ob)\<rparr>))"

fun defineProperties ::
  "'e world \<Rightarrow> jsval \<Rightarrow> (string \<times> descriptor) list \<Rightarrow> completion \<times> 'e world" where
  "defineProperties w target [] = (Return target, w)"
| "defineProperties w target ((n, d) # ps) =
     (case target of
        VRef a \<Rightarrow>
          (case define_property (obj_at (heap w) a) n d of
             None \<Rightarrow> throw_TypeError (''Cannot redefine property: '' @ n) w
           | Some ob \<Rightarrow> defineProperties (w\<lparr>heap := (heap w)[a := ob]\<rparr>) target ps)
      | _ \<Rightarrow> throw_TypeError ''Object.defineProperties called on non-object'' w)"

text \<open>
  \<^verbatim>\<open>
  const wrapTxn = (mode) => {
    return (...bindParameters) => {
      db.exec("BEGIN " + mode);
      try {
        const result = fn(...bindParameters);
        db.exec("COMMIT");
        return result;
      } catch (err) {
        db.exec("ROLLBACK");
        throw err;
      }
    };
  };
  \<close>
  \<open>wrapTxn fn db mode\<close> is the function object returned (an anonymous arrow function with
  a rest parameter: \<open>length\<close> 0, \<open>name\<close> empty); \<open>wrapTxn_apply\<close> is its body. The call
  \<open>COMMIT\<close> is inside the \<open>try\<close>.
\<close>

definition wrapTxn :: "jsval \<Rightarrow> jsval \<Rightarrow> string \<Rightarrow> obj" where
  "wrapTxn fn db mode =
     \<lparr>kind = Transaction mode fn db,
      props = [(''length'', \<lparr>pvalue = VNum (Finite 0), writable = False, enumerable = False,
                             configurable = True\<rparr>),
               (''name'', \<lparr>pvalue = VStr [], writable = False, enumerable = False,
                           configurable = True\<rparr>)]\<rparr>"

definition wrapTxn_apply ::
  "'e host \<Rightarrow> string \<Rightarrow> jsval \<Rightarrow> jsval \<Rightarrow> jsval list \<Rightarrow> 'e world \<Rightarrow> completion \<times> 'e world" where
  "wrapTxn_apply H mode fn db bindParameters w =
     (case Database_exec H db (VStr (''BEGIN '' @ mode)) w of
        (Throw e, w1) \<Rightarrow> (Throw e, w1)
      | (Return u, w1) \<Rightarrow>
          (case (case call H fn bindParameters w1 of
                   (Throw err, w2) \<Rightarrow> (Throw err, w2)
                 | (Return result, w2) \<Rightarrow>
                     (case Database_exec H db (VStr ''COMMIT'') w2 of
                        (Throw err, w3) \<Rightarrow> (Throw err, w3)
                      | (Return u', w3) \<Rightarrow> (Return result, w3)))
           of
             (Return result, w') \<Rightarrow> (Return result, w')
           | (Throw err, w') \<Rightarrow>
               (case Database_exec H db (VStr ''ROLLBACK'') w' of
                  (Throw e, w'') \<Rightarrow> (Throw e, w'')
                | (Return u', w'') \<Rightarrow> (Throw err, w''))))"

text \<open>
  \<^verbatim>\<open>
  transaction(fn) {
    if (typeof fn !== "function")
      throw new TypeError("Expected first argument to be a function");
    const db = this;
    const wrapTxn = ...;
    const properties = {
      default: { value: wrapTxn("") },
      deferred: { value: wrapTxn("DEFERRED") },
      immediate: { value: wrapTxn("IMMEDIATE") },
      exclusive: { value: wrapTxn("EXCLUSIVE") },
      database: { value: this, enumerable: true },
    };
    Object.defineProperties(properties.default.value, properties);
    Object.defineProperties(properties.deferred.value, properties);
    Object.defineProperties(properties.immediate.value, properties);
    Object.defineProperties(properties.exclusive.value, properties);
    return properties.default.value;
  }
  \<close>
\<close>

definition value_desc :: "jsval \<Rightarrow> descriptor" where
  "value_desc v = \<lparr>d_value = Some v, d_writable = None, d_enumerable = None, d_configurable = None\<rparr>"

definition Database_transaction :: "jsval \<Rightarrow> jsval \<Rightarrow> 'e world \<Rightarrow> completion \<times> 'e world" where
  "Database_transaction this fn w =
     (if typeof (heap w) fn \<noteq> ''function''
      then throw_TypeError ''Expected first argument to be a function'' w
      else
        (case alloc (wrapTxn fn this []) w of (f_default, w1) \<Rightarrow>
        (case alloc (wrapTxn fn this ''DEFERRED'') w1 of (f_deferred, w2) \<Rightarrow>
        (case alloc (wrapTxn fn this ''IMMEDIATE'') w2 of (f_immediate, w3) \<Rightarrow>
        (case alloc (wrapTxn fn this ''EXCLUSIVE'') w3 of (f_exclusive, w4) \<Rightarrow>
        (let properties =
               [(''default'', value_desc f_default),
                (''deferred'', value_desc f_deferred),
                (''immediate'', value_desc f_immediate),
                (''exclusive'', value_desc f_exclusive),
                (''database'', (value_desc this)\<lparr>d_enumerable := Some True\<rparr>)]
         in
         (case defineProperties w4 f_default properties of
            (Throw e, w5) \<Rightarrow> (Throw e, w5)
          | (Return u5, w5) \<Rightarrow>
         (case defineProperties w5 f_deferred properties of
            (Throw e, w6) \<Rightarrow> (Throw e, w6)
          | (Return u6, w6) \<Rightarrow>
         (case defineProperties w6 f_immediate properties of
            (Throw e, w7) \<Rightarrow> (Throw e, w7)
          | (Return u7, w7) \<Rightarrow>
         (case defineProperties w7 f_exclusive properties of
            (Throw e, w8) \<Rightarrow> (Throw e, w8)
          | (Return u8, w8) \<Rightarrow> (Return f_default, w8)))))))))))"

text \<open>
  The call \<open>f(...args)\<close> of any value: a closure of \<open>wrapTxn\<close> runs its body, a function of
  the user's is run by the host, anything else is not callable.
\<close>

definition invoke ::
  "'e host \<Rightarrow> jsval \<Rightarrow> jsval list \<Rightarrow> 'e world \<Rightarrow> completion \<times> 'e world" where
  "invoke H f args w =
     (case f of
        VRef a \<Rightarrow>
          (case kind (obj_at (heap w) a) of
             Transaction mode fn db \<Rightarrow> wrapTxn_apply H mode fn db args w
           | Function \<Rightarrow> call H f args w
           | Instance c \<Rightarrow> throw_TypeError ''f is not a function'' w)
      | _ \<Rightarrow> throw_TypeError ''f is not a function'' w)"

subsection \<open>pragma\<close>

text \<open>
  \<^verbatim>\<open>
  pragma(source, options) {
    if (options == null) options = {};
    if (typeof source !== 'string') throw new TypeError('Expected first argument to be a string');
    if (typeof options !== 'object') throw new TypeError('Expected second argument to be an options object');
    const simple = options['simple'];
    const stmt = this.prepare(`PRAGMA ${source}`, this, true);
    return simple ? stmt.pluck().get() : stmt.all();
  }
  \<close>
  \<open>prepare\<close> takes one parameter and ignores the other two arguments. \<open>stmt.pluck()\<close>
  passes \<open>undefined\<close> on to the native \<open>pluck\<close>.
\<close>

definition Database_pragma ::
  "'e host \<Rightarrow> jsval \<Rightarrow> jsval \<Rightarrow> jsval \<Rightarrow> 'e world \<Rightarrow> completion \<times> 'e world" where
  "Database_pragma H this source options w =
     (case (if nullish options then alloc empty_object w
            else (options, w))
      of (options, w0) \<Rightarrow>
        (case source of
           VStr s \<Rightarrow>
             if typeof (heap w0) options \<noteq> ''object''
             then throw_TypeError ''Expected second argument to be an options object'' w0
             else
               let simple = property (heap w0) options ''simple'' in
               (case Database_prepare H this (VStr (''PRAGMA '' @ s)) w0 of
                  (Throw e, w1) \<Rightarrow> (Throw e, w1)
                | (Return stmt, w1) \<Rightarrow>
                    if truthy simple
                    then (case Statement_pluck H stmt VUndefined w1 of
                            (Throw e, w2) \<Rightarrow> (Throw e, w2)
                          | (Return plucked, w2) \<Rightarrow> Statement_get H plucked [] w2)
                    else Statement_all H stmt [] w1)
         | _ \<Rightarrow> throw_TypeError ''Expected first argument to be a string'' w0))"

section \<open>Notions used to state the properties\<close>

text \<open>The own property \<open>n\<close> of the object at \<open>a\<close>, with its attributes, if there is one.\<close>

definition own :: "obj list \<Rightarrow> addr \<Rightarrow> string \<Rightarrow> dprop option" where
  "own h a n = map_of (props (obj_at h a)) n"

text \<open>A property as \<open>defineProperties\<close> creates it from \<open>{ value: v }\<close>.\<close>

definition readonly :: "jsval \<Rightarrow> dprop" where
  "readonly v = \<lparr>pvalue = v, writable = False, enumerable = False, configurable = False\<rparr>"

text \<open>
  \<open>raises_TypeError msg w r\<close>: the outcome \<open>r\<close> of a call started in world \<open>w\<close> is the throw
  of a fresh object that is exactly \<open>new TypeError(msg)\<close>, every object of \<open>w\<close> is as it
  was, the engine's state is the same and no call on a native handle was made.
\<close>

definition raises_TypeError :: "string \<Rightarrow> 'e world \<Rightarrow> completion \<times> 'e world \<Rightarrow> bool" where
  "raises_TypeError msg w r =
     (case r of
        (Throw (VRef a), w') \<Rightarrow>
          length (heap w) \<le> a \<and> obj_at (heap w') a = TypeError msg
          \<and> take (length (heap w)) (heap w') = heap w
          \<and> engine w' = engine w \<and> trace w' = trace w
      | _ \<Rightarrow> False)"

text \<open>The TypeError that \<open>convertError\<close> meets when it reads \<open>message\<close> off \<open>null\<close> or \<open>undefined\<close>.\<close>

definition message_TypeError :: obj where
  "message_TypeError = TypeError ''Cannot read properties of null or undefined (reading message)''"

text \<open>
  A closure of \<open>wrapTxn\<close> once \<open>transaction\<close> has linked it to its siblings, which sit at
  the addresses \<open>n\<close>, \<open>n + 1\<close>, \<open>n + 2\<close> and \<open>n + 3\<close>.
\<close>

definition linked :: "jsval \<Rightarrow> jsval \<Rightarrow> string \<Rightarrow> nat \<Rightarrow> obj" where
  "linked fn db mode n =
     \<lparr>kind = Transaction mode fn db,
      props = props (wrapTxn fn db mode) @
              [(''default'', readonly (VRef n)),
               (''deferred'', readonly (VRef (n + 1))),
               (''immediate'', readonly (VRef (n + 2))),
               (''exclusive'', readonly (VRef (n + 3))),
               (''database'', (readonly db)\<lparr>enumerable := True\<rparr>)]\<rparr>"

section \<open>A small engine to run the facade on\<close>

text \<open>
  The theorems below hold for every host. To run the facade on concrete inputs, this
  section fixes one: an engine that rejects the calls selected by \<open>denies\<close> with the
  structured error of the repository's authorizer test (\<open>extensions.test.js\<close>), a
  \<open>JSON.parse\<close> that knows the three texts the examples use, and a user function that
  inserts a row and then returns \<open>3\<close> (the function at address 1) or throws \<open>boom\<close> (any
  other function). The engine's state counts the native calls that returned.
\<close>

definition auth_denied :: string where
  "auth_denied = ''{\"libsqlError\":true,\"message\":\"Authorization denied by JS authorizer\",\"code\":\"SQLITE_AUTH\",\"rawCode\":23}''"

definition data_prop :: "jsval \<Rightarrow> dprop" where
  "data_prop v = \<lparr>pvalue = v, writable = True, enumerable = True, configurable = True\<rparr>"

definition auth_denied_data :: obj where
  "auth_denied_data =
     \<lparr>kind = Instance ''Object'',
      props = [(''libsqlError'', data_prop (VBool True)),
               (''message'', data_prop (VStr ''Authorization denied by JS authorizer'')),
               (''code'', data_prop (VStr ''SQLITE_AUTH'')),
               (''rawCode'', data_prop (VNum (Finite 23)))]\<rparr>"

definition sample_parse :: "string \<Rightarrow> obj list \<Rightarrow> jsval option \<times> obj list" where
  "sample_parse s h =
     (if s = auth_denied then (Some (VRef (length h)), h @ [auth_denied_data])
      else if s = ''{}'' then (Some (VRef (length h)), h @ [empty_object])
      else if s = ''null'' then (Some VNull, h)
      else (None, h))"

text \<open>\<open>new Error(msg)\<close>.\<close>

definition Error :: "string \<Rightarrow> obj" where
  "Error msg =
     \<lparr>kind = Instance ''Error'',
      props = [(''message'', \<lparr>pvalue = VStr msg, writable = True, enumerable = False,
                              configurable = True\<rparr>)]\<rparr>"

text \<open>Which native calls the sample engine rejects: none, all, or those given one SQL text.\<close>

definition permissive :: "string \<Rightarrow> jsval list \<Rightarrow> bool" where
  [simp]: "permissive m args = False"

definition hostile :: "string \<Rightarrow> jsval list \<Rightarrow> bool" where
  [simp]: "hostile m args = True"

definition denying :: "string \<Rightarrow> string \<Rightarrow> jsval list \<Rightarrow> bool" where
  [simp]: "denying sql m args = (args = [VStr sql])"

definition sample_native ::
  "(string \<Rightarrow> jsval list \<Rightarrow> bool) \<Rightarrow> nat \<Rightarrow> string \<Rightarrow> jsval list \<Rightarrow> obj list \<Rightarrow> nat
     \<Rightarrow> completion \<times> obj list \<times> nat" where
  "sample_native denies h m args hp e =
     (if denies m args then (Throw (VRef (length hp)), hp @ [Error auth_denied], e)
      else if m = ''prepare'' then (Return (VNative (Suc h)), hp, Suc e)
      else if m = ''get'' then (Return (VNum (Finite 5000)), hp, Suc e)
      else if m = ''all'' then (Return (VRef (length hp)), hp @ [\<lparr>kind = Instance ''Array'', props = []\<rparr>], Suc e)
      else (Return VUndefined, hp, Suc e))"

definition sample_base :: "(string \<Rightarrow> jsval list \<Rightarrow> bool) \<Rightarrow> nat host" where
  "sample_base denies =
     \<lparr>JSON_parse = sample_parse, native = sample_native denies,
      call = (\<lambda>f args w. (Return VUndefined, w))\<rparr>"

definition sample_fn ::
  "(string \<Rightarrow> jsval list \<Rightarrow> bool) \<Rightarrow> jsval \<Rightarrow> jsval list \<Rightarrow> nat world \<Rightarrow> completion \<times> nat world" where
  "sample_fn denies f args w =
     (case Database_exec (sample_base denies) (VRef 0) (VStr ''INSERT INTO users (id) VALUES (3)'') w of
        (Throw e, w') \<Rightarrow> (Throw e, w')
      | (Return u, w') \<Rightarrow>
          if f = VRef 1 then (Return (VNum (Finite 3)), w') else (Throw (VStr ''boom''), w'))"

definition sample_engine :: "(string \<Rightarrow> jsval list \<Rightarrow> bool) \<Rightarrow> nat host" where
  "sample_engine denies = (sample_base denies)\<lparr>call := sample_fn denies\<rparr>"

text \<open>An engine whose every call throws the primitive \<open>v\<close>.\<close>

definition throwing_engine :: "jsval \<Rightarrow> nat host" where
  "throwing_engine v =
     \<lparr>JSON_parse = sample_parse, native = (\<lambda>h m args hp e. (Throw v, hp, e)),
      call = (\<lambda>f args w. (Return VUndefined, w))\<rparr>"

text \<open>
  A world with a \<open>Database\<close> holding the two data properties its constructor sets (\<open>db\<close>,
  the native connection 0, and \<open>memory\<close>) at address 0, two functions of the user at 1 and 2, a
  \<open>Statement\<close> on the native statement 1 at 3, an options object \<open>{ simple: true }\<close> at 4,
  and two closures of \<open>wrapTxn\<close> at 5 and 6.
\<close>

definition sample_world :: "nat world" where
  "sample_world =
     \<lparr>heap = [\<lparr>kind = Instance ''Database'',
               props = [(''db'', data_prop (VNative 0)), (''memory'', data_prop (VBool True))]\<rparr>,
              \<lparr>kind = Function, props = []\<rparr>,
              \<lparr>kind = Function, props = []\<rparr>,
              Statement (VNative 1),
              \<lparr>kind = Instance ''Object'', props = [(''simple'', data_prop (VBool True))]\<rparr>,
              wrapTxn (VRef 1) (VRef 0) ''IMMEDIATE'',
              wrapTxn (VRef 2) (VRef 0) ''EXCLUSIVE''],
      engine = 0, trace = []\<rparr>"

section \<open>Facts about the model\<close>

lemma typeof_string: "typeof h v = ''string'' \<longleftrightarrow> (\<exists>s. v = VStr s)"
  by (cases v) (auto split: kind.splits)

lemma property_not_nullish: "property h v n = VStr s \<Longrightarrow> \<not> nullish v"
  by (cases v) (auto simp: nullish_def)

lemma obj_at_append_new: "obj_at (h @ [ob]) (length h) = ob"
  by (simp add: obj_at_def)

lemma convertError_engine_trace:
  "convertError H w err = (r, w') \<Longrightarrow> engine w' = engine w \<and> trace w' = trace w"
  by (auto simp: convertError_def throw_TypeError_def alloc_def
           split: if_splits jsval.splits prod.splits option.splits)

lemma convertError_nullish:
  "nullish err \<Longrightarrow>
   convertError H w err =
     (Throw (VRef (length (heap w))), w\<lparr>heap := heap w @ [message_TypeError]\<rparr>)"
  by (simp add: convertError_def throw_TypeError_def alloc_def message_TypeError_def)

lemma convertError_total:
  "\<not> nullish err \<Longrightarrow> \<exists>v w'. convertError H w err = (Return v, w')"
  by (auto simp: convertError_def alloc_def split: jsval.splits prod.splits option.splits)

lemma throw_convertError_Return:
  "convertError H w err = (Return e, w') \<Longrightarrow> throw_convertError H w err = (Throw e, w')"
  by (simp add: throw_convertError_def)

lemma throw_convertError_trace:
  assumes "throw_convertError H w err = (r, w')"
  shows "trace w' = trace w"
proof -
  obtain r' where "convertError H w err = (r', w')"
    using assms by (auto simp: throw_convertError_def split: prod.splits completion.splits)
  then show ?thesis by (simp add: convertError_engine_trace)
qed

lemma invoke_native_trace:
  "invoke_native H (VNative h) m args w = (r, w') \<Longrightarrow> trace w' = trace w @ [(h, m, args)]"
  by (auto simp: invoke_native_def split: prod.splits)

lemma invoke_native_call:
  "invoke_native (H\<lparr>call := c\<rparr>) recv m args w = invoke_native H recv m args w"
  by (cases recv) (simp_all add: invoke_native_def)

lemma convertError_call: "convertError (H\<lparr>call := c\<rparr>) w err = convertError H w err"
  by (cases "property (heap w) err ''message''") (simp_all add: convertError_def)

lemma throw_convertError_call:
  "throw_convertError (H\<lparr>call := c\<rparr>) w err = throw_convertError H w err"
  by (simp add: throw_convertError_def convertError_call)

lemma Database_exec_call: "Database_exec (H\<lparr>call := c\<rparr>) db sql w = Database_exec H db sql w"
  by (simp add: Database_exec_def invoke_native_call throw_convertError_call
           split: prod.splits completion.splits)

text \<open>Each method that calls the engine adds exactly its own call to the trace.\<close>

lemma Database_exec_trace:
  assumes "property (heap w) db ''db'' = VNative h" and "Database_exec H db sql w = (r, w')"
  shows "trace w' = trace w @ [(h, ''exec'', [sql])]"
proof (cases "invoke_native H (VNative h) ''exec'' [sql] w")
  case (Pair r0 w0)
  then have t0: "trace w0 = trace w @ [(h, ''exec'', [sql])]" by (rule invoke_native_trace)
  show ?thesis
  proof (cases r0)
    case (Return u)
    then show ?thesis using assms Pair t0 by (simp add: Database_exec_def)
  next
    case (Throw err)
    then have "throw_convertError H w0 err = (r, w')"
      using assms Pair by (simp add: Database_exec_def)
    then show ?thesis using t0 by (simp add: throw_convertError_trace)
  qed
qed

lemma Database_prepare_trace:
  assumes "property (heap w) db ''db'' = VNative h" and "Database_prepare H db sql w = (r, w')"
  shows "trace w' = trace w @ [(h, ''prepare'', [sql])]"
proof (cases "invoke_native H (VNative h) ''prepare'' [sql] w")
  case (Pair r0 w0)
  then have t0: "trace w0 = trace w @ [(h, ''prepare'', [sql])]" by (rule invoke_native_trace)
  show ?thesis
  proof (cases r0)
    case (Return u)
    then show ?thesis using assms Pair t0 by (auto simp: Database_prepare_def alloc_def)
  next
    case (Throw err)
    then have "throw_convertError H w0 err = (r, w')"
      using assms Pair by (simp add: Database_prepare_def)
    then show ?thesis using t0 by (simp add: throw_convertError_trace)
  qed
qed

lemma Statement_get_trace:
  assumes "property (heap w) this ''stmt'' = VNative h" and "Statement_get H this args w = (r, w')"
  shows "trace w' = trace w @ [(h, ''get'', args)]"
proof (cases "invoke_native H (VNative h) ''get'' args w")
  case (Pair r0 w0)
  then have t0: "trace w0 = trace w @ [(h, ''get'', args)]" by (rule invoke_native_trace)
  show ?thesis
  proof (cases r0)
    case (Return u)
    then show ?thesis using assms Pair t0 by (auto simp: Statement_get_def)
  next
    case (Throw err)
    then have "throw_convertError H w0 err = (r, w')"
      using assms Pair by (simp add: Statement_get_def)
    then show ?thesis using t0 by (simp add: throw_convertError_trace)
  qed
qed

lemma Statement_all_trace:
  assumes "property (heap w) this ''stmt'' = VNative h" and "Statement_all H this args w = (r, w')"
  shows "trace w' = trace w @ [(h, ''all'', args)]"
proof (cases "invoke_native H (VNative h) ''all'' args w")
  case (Pair r0 w0)
  then have t0: "trace w0 = trace w @ [(h, ''all'', args)]" by (rule invoke_native_trace)
  show ?thesis
  proof (cases r0)
    case (Return u)
    then show ?thesis using assms Pair t0 by (auto simp: Statement_all_def)
  next
    case (Throw err)
    then have "throw_convertError H w0 err = (r, w')"
      using assms Pair by (simp add: Statement_all_def)
    then show ?thesis using t0 by (simp add: throw_convertError_trace)
  qed
qed

lemma Statement_pluck_trace:
  assumes "property (heap w) this ''stmt'' = VNative h"
    and "Statement_pluck H this mode w = (r, w')"
  shows "trace w' = trace w @ [(h, ''pluck'', [mode])]"
  using assms invoke_native_trace [of H h "''pluck''" "[mode]" w]
  by (auto simp: Statement_pluck_def split: prod.splits completion.splits)

lemma Statement_pluck_this:
  "Statement_pluck H stmt mode w = (Return v, w') \<Longrightarrow> v = stmt"
  by (auto simp: Statement_pluck_def split: prod.splits completion.splits)

text \<open>The three argument checks of the facade.\<close>

lemma raises_throw_TypeError: "raises_TypeError msg w (throw_TypeError msg w)"
  by (simp add: raises_TypeError_def throw_TypeError_def alloc_def obj_at_def)

lemma raises_throw_TypeError_alloc:
  "raises_TypeError msg w (throw_TypeError msg (snd (alloc ob w)))"
  by (simp add: raises_TypeError_def throw_TypeError_def alloc_def obj_at_def nth_append)

lemma transaction_TypeError:
  "typeof (heap w) fn \<noteq> ''function'' \<Longrightarrow>
   Database_transaction this fn w = throw_TypeError ''Expected first argument to be a function'' w"
  by (simp add: Database_transaction_def)

lemma pragma_source_TypeError:
  "typeof (heap w) source \<noteq> ''string'' \<Longrightarrow>
   Database_pragma H this source options w =
     throw_TypeError ''Expected first argument to be a string''
       (if nullish options then snd (alloc empty_object w) else w)"
  by (cases source) (simp_all add: Database_pragma_def alloc_def)

lemma pragma_options_TypeError:
  "\<not> nullish options \<Longrightarrow> typeof (heap w) options \<noteq> ''object'' \<Longrightarrow>
   Database_pragma H this (VStr s) options w =
     throw_TypeError ''Expected second argument to be an options object'' w"
  by (simp add: Database_pragma_def)

text \<open>What \<open>transaction\<close> leaves in the heap.\<close>

lemma transaction_heap:
  assumes "typeof (heap w) fn = ''function''"
  shows "Database_transaction this fn w =
           (Return (VRef (length (heap w))),
            w\<lparr>heap := heap w @ [linked fn this [] (length (heap w)),
                                linked fn this ''DEFERRED'' (length (heap w)),
                                linked fn this ''IMMEDIATE'' (length (heap w)),
                                linked fn this ''EXCLUSIVE'' (length (heap w))]\<rparr>)"
  using assms
  by (simp add: Database_transaction_def alloc_def obj_at_def nth_append define_property_def
        wrapTxn_def value_desc_def create_prop_def linked_def readonly_def list_update_append)

text \<open>The sample \<open>JSON.parse\<close> only allocates.\<close>

lemma sample_parse_frame: "take (length h) (snd (sample_parse s h)) = h"
  by (simp add: sample_parse_def)

text \<open>
  The \<open>convertError\<close> of \<open>wrapper.js\<close> looks for the marker on the error itself and never
  parses: an error that only carries the marker inside its JSON message comes back as it
  is. No method of \<open>wrapper.js\<close> calls it.
\<close>

lemma wrapper_convertError_no_marker:
  "\<not> nullish err \<Longrightarrow> \<not> truthy (property (heap w) err ''libsqlError'') \<Longrightarrow>
   wrapper_convertError w err = (Return err, w)"
  by (simp add: wrapper_convertError_def)

subsection \<open>Running the sample engine\<close>

lemma sample_world_heap: "length (heap sample_world) = 7"
  by (simp add: sample_world_def)

lemma sample_exec_ok:
  assumes "\<not> denies ''exec'' [VStr sql]" and "field hp 0 ''db'' = VNative 0"
  shows "Database_exec (sample_engine denies) (VRef 0) (VStr sql) \<lparr>heap = hp, engine = e, trace = t\<rparr>
         = (Return VUndefined, \<lparr>heap = hp, engine = Suc e, trace = t @ [(0, ''exec'', [VStr sql])]\<rparr>)"
  using assms
  by (simp add: Database_exec_def invoke_native_def sample_engine_def sample_base_def
        sample_native_def)

lemma sample_exec_denied:
  assumes "denies ''exec'' [VStr sql]" and "field hp 0 ''db'' = VNative 0"
  shows "Database_exec (sample_engine denies) (VRef 0) (VStr sql) \<lparr>heap = hp, engine = e, trace = t\<rparr>
         = (Throw (VRef (length hp + 2)),
            \<lparr>heap = hp @ [Error auth_denied, auth_denied_data,
                          SqliteError (VStr ''Authorization denied by JS authorizer'')
                            (VStr ''SQLITE_AUTH'') (VNum (Finite 23))],
             engine = e, trace = t @ [(0, ''exec'', [VStr sql])]\<rparr>)"
  using assms
  by (simp add: Database_exec_def invoke_native_def sample_engine_def sample_base_def
        sample_native_def throw_convertError_def convertError_def nullish_def field_def
        obj_at_def nth_append Error_def sample_parse_def alloc_def auth_denied_data_def data_prop_def)

lemma sample_exec_base:
  "Database_exec (sample_base denies) db sql w = Database_exec (sample_engine denies) db sql w"
  by (simp add: sample_engine_def Database_exec_call)

lemma sample_db: "field (heap sample_world @ xs) 0 ''db'' = VNative 0"
  by (simp add: sample_world_def field_def obj_at_def data_prop_def)

lemma sample_db0: "field (heap sample_world) 0 ''db'' = VNative 0"
  using sample_db [of "[]"] by simp

lemma sample_world_eq:
  "sample_world = \<lparr>heap = heap sample_world, engine = 0, trace = []\<rparr>"
  by (simp add: sample_world_def)

lemma sample_fn_ok:
  assumes "\<not> denies ''exec'' [VStr ''INSERT INTO users (id) VALUES (3)'']"
    and "field hp 0 ''db'' = VNative 0"
  shows "call (sample_engine denies) f args \<lparr>heap = hp, engine = e, trace = t\<rparr>
         = ((if f = VRef 1 then Return (VNum (Finite 3)) else Throw (VStr ''boom'')),
            \<lparr>heap = hp, engine = Suc e,
             trace = t @ [(0, ''exec'', [VStr ''INSERT INTO users (id) VALUES (3)''])]\<rparr>)"
  using assms sample_exec_ok [of denies "''INSERT INTO users (id) VALUES (3)''" hp e t]
  by (simp add: sample_engine_def sample_fn_def sample_exec_base [unfolded sample_engine_def])

lemma sample_variants:
  "kind (obj_at (heap sample_world) 5) = Transaction ''IMMEDIATE'' (VRef 1) (VRef 0)"
  "kind (obj_at (heap sample_world) 6) = Transaction ''EXCLUSIVE'' (VRef 2) (VRef 0)"
  by (simp_all add: sample_world_def obj_at_def wrapTxn_def)

lemma sample_prepare_ok:
  assumes "\<not> denies ''prepare'' [VStr sql]" and "field hp 0 ''db'' = VNative 0"
  shows "Database_prepare (sample_engine denies) (VRef 0) (VStr sql) \<lparr>heap = hp, engine = e, trace = t\<rparr>
         = (Return (VRef (length hp)),
            \<lparr>heap = hp @ [Statement (VNative 1)], engine = Suc e,
             trace = t @ [(0, ''prepare'', [VStr sql])]\<rparr>)"
  using assms
  by (simp add: Database_prepare_def invoke_native_def sample_engine_def sample_base_def
        sample_native_def alloc_def)

section \<open>The properties of the specification\<close>

text \<open>
  Claim C1. Let \<open>e\<close> be an error whose \<open>message\<close> is a string that \<open>JSON.parse\<close> turns
  into an object \<open>data\<close> with \<open>libsqlError\<close> \<open>true\<close>, \<open>message\<close> \<open>M\<close>, \<open>code\<close> \<open>C\<close> and
  \<open>rawCode\<close> \<open>R\<close>. Then \<open>convertError(e)\<close> returns a new \<open>SqliteError\<close> whose \<open>message\<close> is
  \<open>M\<close>, whose \<open>code\<close> is \<open>C\<close> and whose \<open>rawCode\<close> is \<open>R\<close>. The marker is looked for in
  the parsed message, not on \<open>e\<close>.
\<close>

theorem convertError_structured:
  assumes msg: "property (heap w) e ''message'' = VStr s"
    and parse: "JSON_parse H s (heap w) = (Some data, h1)"
    and marker: "property h1 data ''libsqlError'' = VBool True"
    and M: "property h1 data ''message'' = M"
    and C: "property h1 data ''code'' = C"
    and R: "property h1 data ''rawCode'' = R"
  shows "convertError H w e = (Return (VRef (length h1)), w\<lparr>heap := h1 @ [SqliteError M C R]\<rparr>)
         \<and> kind (obj_at (h1 @ [SqliteError M C R]) (length h1)) = Instance ''SqliteError''
         \<and> property (h1 @ [SqliteError M C R]) (VRef (length h1)) ''message'' = M
         \<and> property (h1 @ [SqliteError M C R]) (VRef (length h1)) ''code'' = C
         \<and> property (h1 @ [SqliteError M C R]) (VRef (length h1)) ''rawCode'' = R"
proof -
  from marker obtain a where data: "data = VRef a" by (cases data) auto
  have nn: "\<not> nullish e" using msg by (rule property_not_nullish)
  have "convertError H w e = (Return (VRef (length h1)), w\<lparr>heap := h1 @ [SqliteError M C R]\<rparr>)"
    using nn msg parse marker M C R data
    by (simp add: convertError_def alloc_def)
  moreover have "property (h1 @ [SqliteError M C R]) (VRef (length h1)) ''message'' = M"
    "property (h1 @ [SqliteError M C R]) (VRef (length h1)) ''code'' = C"
    "property (h1 @ [SqliteError M C R]) (VRef (length h1)) ''rawCode'' = R"
    by (simp_all add: field_def obj_at_append_new SqliteError_def)
  ultimately show ?thesis by (simp add: obj_at_append_new SqliteError_def)
qed

theorem convertError_structured_witness:
  "convertError (sample_engine permissive)
     \<lparr>heap = [Error auth_denied], engine = 0, trace = []\<rparr> (VRef 0)
   = (Return (VRef 2),
      \<lparr>heap = [Error auth_denied, auth_denied_data,
               SqliteError (VStr ''Authorization denied by JS authorizer'') (VStr ''SQLITE_AUTH'')
                 (VNum (Finite 23))],
       engine = 0, trace = []\<rparr>)
   \<and> property [Error auth_denied, auth_denied_data,
                SqliteError (VStr ''Authorization denied by JS authorizer'') (VStr ''SQLITE_AUTH'')
                  (VNum (Finite 23))] (VRef 2) ''rawCode'' = VNum (Finite 23)"
  using convertError_structured [of "\<lparr>heap = [Error auth_denied], engine = 0, trace = []\<rparr>" "VRef 0"
     auth_denied "sample_engine permissive" "VRef 1" "[Error auth_denied, auth_denied_data]"
     "VStr ''Authorization denied by JS authorizer''" "VStr ''SQLITE_AUTH''" "VNum (Finite 23)"]
  by (simp add: sample_engine_def sample_base_def sample_parse_def field_def obj_at_def Error_def
        auth_denied_data_def data_prop_def)

text \<open>
  Claim C2, as amended. Take a mode variant built by \<open>transaction(fn)\<close>, with mode \<open>M\<close>.
  When \<open>exec("BEGIN " + M)\<close> returns, \<open>fn(...A)\<close> returns \<open>v\<close> and \<open>exec("COMMIT")\<close> returns
  too, the call of the variant returns \<open>v\<close>, in the world \<open>COMMIT\<close> left; the calls made on
  the connection are \<open>BEGIN M\<close>, then whatever \<open>fn\<close> made, then \<open>COMMIT\<close>, and nothing
  else: no \<open>ROLLBACK\<close>.
\<close>

theorem body_success_commits:
  assumes variant: "kind (obj_at (heap w) f) = Transaction mode fn db"
    and started: "Database_exec H db (VStr (''BEGIN '' @ mode)) w = (Return u, w1)"
    and body: "call H fn args w1 = (Return v, w2)"
    and commit: "Database_exec H db (VStr ''COMMIT'') w2 = (Return u', w3)"
  shows "invoke H (VRef f) args w = (Return v, w3)
         \<and> (property (heap w) db ''db'' = VNative h \<and> property (heap w2) db ''db'' = VNative h
              \<and> trace w2 = trace w1 @ body_events
              \<longrightarrow> trace w3 = trace w @ [(h, ''exec'', [VStr (''BEGIN '' @ mode)])]
                                @ body_events @ [(h, ''exec'', [VStr ''COMMIT''])])"
proof -
  have "invoke H (VRef f) args w = (Return v, w3)"
    using variant started body commit
    by (simp add: invoke_def wrapTxn_apply_def)
  moreover have "trace w3 = trace w @ [(h, ''exec'', [VStr (''BEGIN '' @ mode)])]
                                @ body_events @ [(h, ''exec'', [VStr ''COMMIT''])]"
    if "property (heap w) db ''db'' = VNative h" "property (heap w2) db ''db'' = VNative h"
       "trace w2 = trace w1 @ body_events"
    using Database_exec_trace [OF that(1) started] Database_exec_trace [OF that(2) commit] that(3)
    by simp
  ultimately show ?thesis by blast
qed

theorem body_success_commits_witness:
  "invoke (sample_engine permissive) (VRef 5) [] sample_world
     = (Return (VNum (Finite 3)),
        \<lparr>heap = heap sample_world, engine = 3,
         trace = [(0, ''exec'', [VStr ''BEGIN IMMEDIATE'']),
                  (0, ''exec'', [VStr ''INSERT INTO users (id) VALUES (3)'']),
                  (0, ''exec'', [VStr ''COMMIT''])]\<rparr>)"
proof -
  let ?ok = permissive
  let ?w1 = "\<lparr>heap = heap sample_world, engine = Suc 0, trace = [(0, ''exec'', [VStr ''BEGIN IMMEDIATE''])]\<rparr>"
  let ?w2 = "\<lparr>heap = heap sample_world, engine = Suc (Suc 0),
              trace = [(0, ''exec'', [VStr ''BEGIN IMMEDIATE'']),
                       (0, ''exec'', [VStr ''INSERT INTO users (id) VALUES (3)''])]\<rparr>"
  have started: "Database_exec (sample_engine ?ok) (VRef 0) (VStr (''BEGIN '' @ ''IMMEDIATE'')) sample_world
       = (Return VUndefined, ?w1)"
    using sample_exec_ok [of ?ok "''BEGIN IMMEDIATE''" "heap sample_world" 0 "[]"]
      sample_db0 sample_world_eq
    by simp
  have body: "call (sample_engine ?ok) (VRef 1) [] ?w1 = (Return (VNum (Finite 3)), ?w2)"
    using sample_fn_ok [of ?ok "heap sample_world" "VRef 1" "[]" "Suc 0"] sample_db0
    by simp
  have commit: "Database_exec (sample_engine ?ok) (VRef 0) (VStr ''COMMIT'') ?w2
       = (Return VUndefined,
          \<lparr>heap = heap sample_world, engine = 3,
           trace = [(0, ''exec'', [VStr ''BEGIN IMMEDIATE'']),
                    (0, ''exec'', [VStr ''INSERT INTO users (id) VALUES (3)'']),
                    (0, ''exec'', [VStr ''COMMIT''])]\<rparr>)"
    using sample_exec_ok [of ?ok "''COMMIT''" "heap sample_world"] sample_db0
    by (simp add: numeral_3_eq_3)
  show ?thesis
    using body_success_commits [OF sample_variants(1) started body commit] by simp
qed

text \<open>
  Claim C2 as first stated asks nothing of \<open>COMMIT\<close>. But \<open>COMMIT\<close> is inside the \<open>try\<close>:
  on an engine that rejects it, the user function returns \<open>3\<close> normally and the call of
  the variant nevertheless issues \<open>ROLLBACK\<close> and throws the normalized \<open>COMMIT\<close> error.
\<close>

theorem commit_failure_counterexample:
  "call (sample_engine (denying ''COMMIT'')) (VRef 1) []
      \<lparr>heap = heap sample_world, engine = 1, trace = [(0, ''exec'', [VStr ''BEGIN IMMEDIATE''])]\<rparr>
     = (Return (VNum (Finite 3)),
        \<lparr>heap = heap sample_world, engine = 2,
         trace = [(0, ''exec'', [VStr ''BEGIN IMMEDIATE'']),
                  (0, ''exec'', [VStr ''INSERT INTO users (id) VALUES (3)''])]\<rparr>)
   \<and> invoke (sample_engine (denying ''COMMIT'')) (VRef 5) [] sample_world
     = (Throw (VRef 9),
        \<lparr>heap = heap sample_world @ [Error auth_denied, auth_denied_data,
                   SqliteError (VStr ''Authorization denied by JS authorizer'')
                     (VStr ''SQLITE_AUTH'') (VNum (Finite 23))],
         engine = 3,
         trace = [(0, ''exec'', [VStr ''BEGIN IMMEDIATE'']),
                  (0, ''exec'', [VStr ''INSERT INTO users (id) VALUES (3)'']),
                  (0, ''exec'', [VStr ''COMMIT'']),
                  (0, ''exec'', [VStr ''ROLLBACK''])]\<rparr>)"
proof -
  let ?bad = "denying ''COMMIT''"
  let ?H = "sample_engine ?bad"
  let ?w1 = "\<lparr>heap = heap sample_world, engine = Suc 0, trace = [(0, ''exec'', [VStr ''BEGIN IMMEDIATE''])]\<rparr>"
  let ?w2 = "\<lparr>heap = heap sample_world, engine = Suc (Suc 0),
              trace = [(0, ''exec'', [VStr ''BEGIN IMMEDIATE'']),
                       (0, ''exec'', [VStr ''INSERT INTO users (id) VALUES (3)''])]\<rparr>"
  let ?h3 = "heap sample_world @ [Error auth_denied, auth_denied_data,
                   SqliteError (VStr ''Authorization denied by JS authorizer'')
                     (VStr ''SQLITE_AUTH'') (VNum (Finite 23))]"
  let ?w3 = "\<lparr>heap = ?h3, engine = Suc (Suc 0),
              trace = [(0, ''exec'', [VStr ''BEGIN IMMEDIATE'']),
                       (0, ''exec'', [VStr ''INSERT INTO users (id) VALUES (3)'']),
                       (0, ''exec'', [VStr ''COMMIT''])]\<rparr>"
  have started: "Database_exec ?H (VRef 0) (VStr ''BEGIN IMMEDIATE'') sample_world
       = (Return VUndefined, ?w1)"
    using sample_exec_ok [of ?bad "''BEGIN IMMEDIATE''" "heap sample_world" 0 "[]"]
      sample_db0 sample_world_eq
    by simp
  have body: "call ?H (VRef 1) [] ?w1 = (Return (VNum (Finite 3)), ?w2)"
    using sample_fn_ok [of ?bad "heap sample_world" "VRef 1" "[]" "Suc 0"] sample_db0
    by simp
  have commit: "Database_exec ?H (VRef 0) (VStr ''COMMIT'') ?w2 = (Throw (VRef 9), ?w3)"
    using sample_exec_denied [of ?bad "''COMMIT''" "heap sample_world"] sample_db0
    by (simp add: sample_world_heap)
  have rollback: "Database_exec ?H (VRef 0) (VStr ''ROLLBACK'') ?w3
       = (Return VUndefined,
          \<lparr>heap = ?h3, engine = 3,
           trace = [(0, ''exec'', [VStr ''BEGIN IMMEDIATE'']),
                    (0, ''exec'', [VStr ''INSERT INTO users (id) VALUES (3)'']),
                    (0, ''exec'', [VStr ''COMMIT'']),
                    (0, ''exec'', [VStr ''ROLLBACK''])]\<rparr>)"
    using sample_exec_ok [of ?bad "''ROLLBACK''" ?h3] sample_db
    by (simp add: numeral_3_eq_3)
  have "invoke ?H (VRef 5) [] sample_world
     = (Throw (VRef 9),
        \<lparr>heap = ?h3, engine = 3,
         trace = [(0, ''exec'', [VStr ''BEGIN IMMEDIATE'']),
                  (0, ''exec'', [VStr ''INSERT INTO users (id) VALUES (3)'']),
                  (0, ''exec'', [VStr ''COMMIT'']),
                  (0, ''exec'', [VStr ''ROLLBACK''])]\<rparr>)"
    using sample_variants(1) started body commit rollback
    by (simp add: invoke_def wrapTxn_apply_def)
  then show ?thesis using body by simp
qed

text \<open>
  Claim C3. Take a mode variant built by \<open>transaction(fn)\<close>, with mode \<open>M\<close>. When
  \<open>exec("BEGIN " + M)\<close> returns and \<open>fn(...A)\<close> throws \<open>E\<close>, the wrapper calls
  \<open>exec("ROLLBACK")\<close>; if that returns, the caller gets the throw of \<open>E\<close> itself, and if it
  throws \<open>R\<close>, the caller gets the throw of \<open>R\<close> instead. The calls made on the connection
  are \<open>BEGIN M\<close>, then whatever \<open>fn\<close> made, then \<open>ROLLBACK\<close>, and nothing else: no
  \<open>COMMIT\<close>.
\<close>

theorem body_failure_rolls_back:
  assumes variant: "kind (obj_at (heap w) f) = Transaction mode fn db"
    and started: "Database_exec H db (VStr (''BEGIN '' @ mode)) w = (Return u, w1)"
    and body: "call H fn args w1 = (Throw E, w2)"
    and rollback: "Database_exec H db (VStr ''ROLLBACK'') w2 = (r, w3)"
  shows "invoke H (VRef f) args w = (Throw (case r of Return u' \<Rightarrow> E | Throw R \<Rightarrow> R), w3)
         \<and> (property (heap w) db ''db'' = VNative h \<and> property (heap w2) db ''db'' = VNative h
              \<and> trace w2 = trace w1 @ body_events
              \<longrightarrow> trace w3 = trace w @ [(h, ''exec'', [VStr (''BEGIN '' @ mode)])]
                                @ body_events @ [(h, ''exec'', [VStr ''ROLLBACK''])])"
proof -
  have "invoke H (VRef f) args w = (Throw (case r of Return u' \<Rightarrow> E | Throw R \<Rightarrow> R), w3)"
    using variant started body rollback
    by (cases r) (simp_all add: invoke_def wrapTxn_apply_def)
  moreover have "trace w3 = trace w @ [(h, ''exec'', [VStr (''BEGIN '' @ mode)])]
                                @ body_events @ [(h, ''exec'', [VStr ''ROLLBACK''])]"
    if "property (heap w) db ''db'' = VNative h" "property (heap w2) db ''db'' = VNative h"
       "trace w2 = trace w1 @ body_events"
    using Database_exec_trace [OF that(1) started] Database_exec_trace [OF that(2) rollback] that(3)
    by simp
  ultimately show ?thesis by blast
qed

theorem body_failure_rolls_back_witness:
  "invoke (sample_engine permissive) (VRef 6) [] sample_world
     = (Throw (VStr ''boom''),
        \<lparr>heap = heap sample_world, engine = 3,
         trace = [(0, ''exec'', [VStr ''BEGIN EXCLUSIVE'']),
                  (0, ''exec'', [VStr ''INSERT INTO users (id) VALUES (3)'']),
                  (0, ''exec'', [VStr ''ROLLBACK''])]\<rparr>)
   \<and> invoke (sample_engine (denying ''ROLLBACK'')) (VRef 6) [] sample_world
     = (Throw (VRef 9),
        \<lparr>heap = heap sample_world @ [Error auth_denied, auth_denied_data,
                   SqliteError (VStr ''Authorization denied by JS authorizer'')
                     (VStr ''SQLITE_AUTH'') (VNum (Finite 23))],
         engine = 2,
         trace = [(0, ''exec'', [VStr ''BEGIN EXCLUSIVE'']),
                  (0, ''exec'', [VStr ''INSERT INTO users (id) VALUES (3)'']),
                  (0, ''exec'', [VStr ''ROLLBACK''])]\<rparr>)"
proof -
  let ?ok = permissive
  let ?bad = "denying ''ROLLBACK''"
  let ?w1 = "\<lparr>heap = heap sample_world, engine = Suc 0, trace = [(0, ''exec'', [VStr ''BEGIN EXCLUSIVE''])]\<rparr>"
  let ?w2 = "\<lparr>heap = heap sample_world, engine = Suc (Suc 0),
              trace = [(0, ''exec'', [VStr ''BEGIN EXCLUSIVE'']),
                       (0, ''exec'', [VStr ''INSERT INTO users (id) VALUES (3)''])]\<rparr>"
  have started: "Database_exec (sample_engine d) (VRef 0) (VStr (''BEGIN '' @ ''EXCLUSIVE'')) sample_world
       = (Return VUndefined, ?w1)" if "\<not> d ''exec'' [VStr ''BEGIN EXCLUSIVE'']" for d
    using that sample_exec_ok [of d "''BEGIN EXCLUSIVE''" "heap sample_world" 0 "[]"]
      sample_db0 sample_world_eq
    by simp
  have body: "call (sample_engine d) (VRef 2) [] ?w1 = (Throw (VStr ''boom''), ?w2)"
    if "\<not> d ''exec'' [VStr ''INSERT INTO users (id) VALUES (3)'']" for d
    using that sample_fn_ok [of d "heap sample_world" "VRef 2" "[]" "Suc 0"] sample_db0
    by simp
  have r1: "Database_exec (sample_engine ?ok) (VRef 0) (VStr ''ROLLBACK'') ?w2
       = (Return VUndefined,
          \<lparr>heap = heap sample_world, engine = 3,
           trace = [(0, ''exec'', [VStr ''BEGIN EXCLUSIVE'']),
                    (0, ''exec'', [VStr ''INSERT INTO users (id) VALUES (3)'']),
                    (0, ''exec'', [VStr ''ROLLBACK''])]\<rparr>)"
    using sample_exec_ok [of ?ok "''ROLLBACK''" "heap sample_world"] sample_db0
    by (simp add: numeral_3_eq_3)
  have r2: "Database_exec (sample_engine ?bad) (VRef 0) (VStr ''ROLLBACK'') ?w2
       = (Throw (VRef 9),
          \<lparr>heap = heap sample_world @ [Error auth_denied, auth_denied_data,
                   SqliteError (VStr ''Authorization denied by JS authorizer'')
                     (VStr ''SQLITE_AUTH'') (VNum (Finite 23))],
           engine = 2,
           trace = [(0, ''exec'', [VStr ''BEGIN EXCLUSIVE'']),
                    (0, ''exec'', [VStr ''INSERT INTO users (id) VALUES (3)'']),
                    (0, ''exec'', [VStr ''ROLLBACK''])]\<rparr>)"
    using sample_exec_denied [of ?bad "''ROLLBACK''" "heap sample_world"] sample_db0
    by (simp add: sample_world_heap numeral_2_eq_2)
  show ?thesis
    using body_failure_rolls_back [OF sample_variants(2) started [of ?ok] body [of ?ok] r1]
      body_failure_rolls_back [OF sample_variants(2) started [of ?bad] body [of ?bad] r2]
    by simp
qed

text \<open>
  Claim C4. Let \<open>err\<close> be a value other than \<open>null\<close> and \<open>undefined\<close> (only these have no
  \<open>message\<close> to read) such that \<open>err.message\<close> is not a string, or is a string that
  \<open>JSON.parse\<close> rejects, or parses to a value \<open>data\<close> for which \<open>data && data.libsqlError\<close>
  is falsy. Then \<open>convertError(err)\<close> returns \<open>err\<close> itself: the same value, hence the same
  reference. Every object that existed before is as it was (\<open>JSON.parse\<close> is taken to
  allocate only), and nothing at all changes when \<open>message\<close> is not a string.
\<close>

theorem convertError_identity:
  assumes nn: "\<not> nullish err"
    and frame: "\<forall>s h. take (length h) (snd (JSON_parse H s h)) = h"
    and pass: "(\<forall>s. property (heap w) err ''message'' \<noteq> VStr s)
               \<or> (\<exists>s h1. property (heap w) err ''message'' = VStr s
                     \<and> JSON_parse H s (heap w) = (None, h1))
               \<or> (\<exists>s data h1. property (heap w) err ''message'' = VStr s
                     \<and> JSON_parse H s (heap w) = (Some data, h1)
                     \<and> \<not> (truthy data \<and> truthy (property h1 data ''libsqlError'')))"
  shows "\<exists>w'. convertError H w err = (Return err, w')
              \<and> take (length (heap w)) (heap w') = heap w
              \<and> engine w' = engine w \<and> trace w' = trace w
              \<and> ((\<forall>s. property (heap w) err ''message'' \<noteq> VStr s) \<longrightarrow> w' = w)"
proof -
  consider (not_string) "\<forall>s. property (heap w) err ''message'' \<noteq> VStr s"
    | (not_json) s h1 where "property (heap w) err ''message'' = VStr s"
        "JSON_parse H s (heap w) = (None, h1)"
    | (no_marker) s data h1 where "property (heap w) err ''message'' = VStr s"
        "JSON_parse H s (heap w) = (Some data, h1)"
        "\<not> (truthy data \<and> truthy (property h1 data ''libsqlError''))"
    using pass by blast
  then show ?thesis
  proof cases
    case not_string
    then have "convertError H w err = (Return err, w)"
      using nn by (auto simp: convertError_def split: jsval.splits)
    then show ?thesis by simp
  next
    case not_json
    have "take (length (heap w)) h1 = heap w" using frame not_json(2) by (metis snd_conv)
    moreover have "convertError H w err = (Return err, w\<lparr>heap := h1\<rparr>)"
      using nn not_json by (simp add: convertError_def)
    ultimately show ?thesis using not_json(1) by simp
  next
    case no_marker
    have "take (length (heap w)) h1 = heap w" using frame no_marker(2) by (metis snd_conv)
    moreover have "convertError H w err = (Return err, w\<lparr>heap := h1\<rparr>)"
      using nn no_marker by (auto simp add: convertError_def)
    ultimately show ?thesis using no_marker(1) by simp
  qed
qed

theorem convertError_identity_witness:
  "fst (convertError (sample_engine permissive)
          \<lparr>heap = [Error ''boom'', Error ''{}'', Error ''null''], engine = 0, trace = []\<rparr> (VRef 0))
     = Return (VRef 0)
   \<and> fst (convertError (sample_engine permissive)
          \<lparr>heap = [Error ''boom'', Error ''{}'', Error ''null''], engine = 0, trace = []\<rparr> (VRef 1))
     = Return (VRef 1)
   \<and> fst (convertError (sample_engine permissive)
          \<lparr>heap = [Error ''boom'', Error ''{}'', Error ''null''], engine = 0, trace = []\<rparr> (VRef 2))
     = Return (VRef 2)
   \<and> convertError (sample_engine permissive)
          \<lparr>heap = [Error ''boom'', Error ''{}'', Error ''null''], engine = 0, trace = []\<rparr> (VStr ''boom'')
     = (Return (VStr ''boom''),
        \<lparr>heap = [Error ''boom'', Error ''{}'', Error ''null''], engine = 0, trace = []\<rparr>)"
proof -
  let ?H = "sample_engine permissive"
  let ?w = "\<lparr>heap = [Error ''boom'', Error ''{}'', Error ''null''], engine = 0::nat, trace = []\<rparr>"
  have frame: "\<forall>s h. take (length h) (snd (JSON_parse ?H s h)) = h"
    by (simp add: sample_engine_def sample_base_def sample_parse_frame)
  have a: "\<exists>h1. property (heap ?w) (VRef 0) ''message'' = VStr ''boom''
             \<and> JSON_parse ?H ''boom'' (heap ?w) = (None, h1)"
    by (simp add: sample_engine_def sample_base_def sample_parse_def field_def obj_at_def
          Error_def auth_denied_def)
  have b: "\<exists>data h1. property (heap ?w) (VRef 1) ''message'' = VStr ''{}''
             \<and> JSON_parse ?H ''{}'' (heap ?w) = (Some data, h1)
             \<and> \<not> (truthy data \<and> truthy (property h1 data ''libsqlError''))"
    by (simp add: sample_engine_def sample_base_def sample_parse_def field_def obj_at_def
          Error_def auth_denied_def empty_object_def)
  have c: "\<exists>data h1. property (heap ?w) (VRef 2) ''message'' = VStr ''null''
             \<and> JSON_parse ?H ''null'' (heap ?w) = (Some data, h1)
             \<and> \<not> (truthy data \<and> truthy (property h1 data ''libsqlError''))"
    by (simp add: sample_engine_def sample_base_def sample_parse_def field_def obj_at_def
          Error_def auth_denied_def)
  have d: "\<forall>s. property (heap ?w) (VStr ''boom'') ''message'' \<noteq> VStr s"
    by simp
  show ?thesis
    using convertError_identity [of "VRef 0" ?H ?w] convertError_identity [of "VRef 1" ?H ?w]
      convertError_identity [of "VRef 2" ?H ?w] convertError_identity [of "VStr ''boom''" ?H ?w]
      frame a b c d
    by (auto simp: nullish_def)
qed

text \<open>
  Claim C5. Let the engine call made by \<open>run\<close>, \<open>get\<close>, \<open>all\<close>, \<open>iterate\<close>, \<open>prepare\<close> or
  \<open>exec\<close> throw \<open>err\<close>, a value other than \<open>null\<close> and \<open>undefined\<close> (claim C10 is about
  those two). Then \<open>convertError(err)\<close> returns some \<open>e\<close>, and the method throws exactly
  that \<open>e\<close>, in the world \<open>convertError\<close> left: the error is converted once and is not
  swallowed.
\<close>

theorem engine_failure_normalized_once:
  assumes err: "\<not> nullish err"
  shows "\<exists>e w2. convertError H w1 err = (Return e, w2)
          \<and> (invoke_native H (property (heap w) this ''stmt'') ''run'' args w = (Throw err, w1)
                \<longrightarrow> Statement_run H this args w = (Throw e, w2))
          \<and> (invoke_native H (property (heap w) this ''stmt'') ''get'' args w = (Throw err, w1)
                \<longrightarrow> Statement_get H this args w = (Throw e, w2))
          \<and> (invoke_native H (property (heap w) this ''stmt'') ''all'' args w = (Throw err, w1)
                \<longrightarrow> Statement_all H this args w = (Throw e, w2))
          \<and> (invoke_native H (property (heap w) this ''stmt'') ''iterate'' args w = (Throw err, w1)
                \<longrightarrow> Statement_iterate H this args w = (Throw e, w2))
          \<and> (invoke_native H (property (heap w) this ''db'') ''prepare'' [sql] w = (Throw err, w1)
                \<longrightarrow> Database_prepare H this sql w = (Throw e, w2))
          \<and> (invoke_native H (property (heap w) this ''db'') ''exec'' [sql] w = (Throw err, w1)
                \<longrightarrow> Database_exec H this sql w = (Throw e, w2))"
proof -
  from convertError_total [OF err] obtain e w2 where c: "convertError H w1 err = (Return e, w2)"
    by blast
  have t: "throw_convertError H w1 err = (Throw e, w2)"
    using c by (rule throw_convertError_Return)
  show ?thesis
    using c t
    by (auto simp: Statement_run_def Statement_get_def Statement_all_def
          Statement_iterate_def Database_prepare_def Database_exec_def)
qed

theorem engine_failure_normalized_once_witness:
  "Statement_run (sample_engine hostile) (VRef 3) [] sample_world
     = (Throw (VRef 9),
        \<lparr>heap = heap sample_world @ [Error auth_denied, auth_denied_data,
                   SqliteError (VStr ''Authorization denied by JS authorizer'')
                     (VStr ''SQLITE_AUTH'') (VNum (Finite 23))],
         engine = 0, trace = [(1, ''run'', [])]\<rparr>)
   \<and> Database_exec (sample_engine hostile) (VRef 0) (VStr ''SELECT 1'') sample_world
     = (Throw (VRef 9),
        \<lparr>heap = heap sample_world @ [Error auth_denied, auth_denied_data,
                   SqliteError (VStr ''Authorization denied by JS authorizer'')
                     (VStr ''SQLITE_AUTH'') (VNum (Finite 23))],
         engine = 0, trace = [(0, ''exec'', [VStr ''SELECT 1''])]\<rparr>)"
proof -
  let ?H = "sample_engine hostile"
  let ?h1 = "heap sample_world @ [Error auth_denied]"
  have nn: "\<not> nullish (VRef 7)" by (simp add: nullish_def)
  have run: "invoke_native ?H (property (heap sample_world) (VRef 3) ''stmt'') ''run'' [] sample_world
               = (Throw (VRef 7), \<lparr>heap = ?h1, engine = 0, trace = [(1, ''run'', [])]\<rparr>)"
    by (simp add: invoke_native_def sample_engine_def sample_base_def sample_native_def
          sample_world_def field_def obj_at_def Statement_def)
  have exec: "invoke_native ?H (property (heap sample_world) (VRef 0) ''db'') ''exec'' [VStr ''SELECT 1''] sample_world
               = (Throw (VRef 7), \<lparr>heap = ?h1, engine = 0, trace = [(0, ''exec'', [VStr ''SELECT 1''])]\<rparr>)"
    by (simp add: invoke_native_def sample_engine_def sample_base_def sample_native_def
          sample_world_def field_def obj_at_def data_prop_def)
  have conv: "convertError ?H \<lparr>heap = ?h1, engine = 0, trace = t\<rparr> (VRef 7)
               = (Return (VRef 9),
                  \<lparr>heap = ?h1 @ [auth_denied_data,
                     SqliteError (VStr ''Authorization denied by JS authorizer'')
                       (VStr ''SQLITE_AUTH'') (VNum (Finite 23))],
                   engine = 0, trace = t\<rparr>)" for t
    by (simp add: convertError_def nullish_def sample_engine_def sample_base_def sample_parse_def
          sample_world_def field_def obj_at_def Error_def auth_denied_data_def data_prop_def
          alloc_def nth_append)
  show ?thesis
    using engine_failure_normalized_once [OF nn, of ?H
            "\<lparr>heap = ?h1, engine = 0, trace = [(1, ''run'', [])]\<rparr>" sample_world "VRef 3" "[]"]
          engine_failure_normalized_once [OF nn, of ?H
            "\<lparr>heap = ?h1, engine = 0, trace = [(0, ''exec'', [VStr ''SELECT 1''])]\<rparr>" sample_world
            "VRef 0" _ "VStr ''SELECT 1''"]
          run exec
    by (simp add: conv)
qed

text \<open>
  Claim C6. Let \<open>source\<close> be the string \<open>s\<close> and \<open>options\<close> be \<open>null\<close>, \<open>undefined\<close> or of type
  \<open>object\<close>; \<open>null\<close> and \<open>undefined\<close> stand for \<open>{}\<close>. \<open>pragma\<close> makes one \<open>prepare\<close> call,
  with the text \<open>"PRAGMA " + s\<close>. If that returns the statement \<open>stmt\<close>: when
  \<open>options.simple\<close> is truthy, \<open>pragma\<close> returns what \<open>stmt.pluck().get()\<close> returns (the
  native calls are \<open>prepare\<close>, \<open>pluck\<close>, \<open>get\<close>), and otherwise what \<open>stmt.all()\<close> returns
  (the native calls are \<open>prepare\<close>, \<open>all\<close>). A \<open>source\<close> that is not a string, and an
  \<open>options\<close> that is given and is not of type \<open>object\<close>, raise a TypeError.
\<close>

theorem pragma_prepares_and_reads:
  assumes valid: "nullish options \<or> typeof (heap w) options = ''object''"
    and w0: "w0 = (if nullish options then snd (alloc empty_object w) else w)"
    and simple: "simple = (if nullish options then VUndefined else property (heap w) options ''simple'')"
    and prepared: "Database_prepare H this (VStr (''PRAGMA '' @ s)) w0 = (Return stmt, w1)"
    and db: "property (heap w0) this ''db'' = VNative h"
  shows "trace w1 = trace w @ [(h, ''prepare'', [VStr (''PRAGMA '' @ s)])]
         \<and> (truthy simple \<and> Statement_pluck H stmt VUndefined w1 = (Return plucked, w2)
              \<longrightarrow> plucked = stmt
                  \<and> Database_pragma H this (VStr s) options w = Statement_get H stmt [] w2
                  \<and> (property (heap w1) stmt ''stmt'' = VNative sh
                       \<and> property (heap w2) stmt ''stmt'' = VNative sh
                       \<longrightarrow> trace (snd (Database_pragma H this (VStr s) options w))
                             = trace w @ [(h, ''prepare'', [VStr (''PRAGMA '' @ s)]),
                                          (sh, ''pluck'', [VUndefined]), (sh, ''get'', [])]))
         \<and> (truthy simple \<and> Statement_pluck H stmt VUndefined w1 = (Throw e, w2)
              \<longrightarrow> Database_pragma H this (VStr s) options w = (Throw e, w2))
         \<and> (\<not> truthy simple
              \<longrightarrow> Database_pragma H this (VStr s) options w = Statement_all H stmt [] w1
                  \<and> (property (heap w1) stmt ''stmt'' = VNative sh
                       \<longrightarrow> trace (snd (Database_pragma H this (VStr s) options w))
                             = trace w @ [(h, ''prepare'', [VStr (''PRAGMA '' @ s)]),
                                          (sh, ''all'', [])]))
         \<and> (typeof (heap w) source \<noteq> ''string'' \<longrightarrow>
               raises_TypeError ''Expected first argument to be a string'' w
                 (Database_pragma H this source opts w))
         \<and> (\<not> nullish opts \<and> typeof (heap w) opts \<noteq> ''object'' \<longrightarrow>
               raises_TypeError ''Expected second argument to be an options object'' w
                 (Database_pragma H this (VStr s) opts w))"
proof -
  let ?options = "if nullish options then fst (alloc empty_object w) else options"
  have tr0: "trace w0 = trace w" using w0 by (simp add: alloc_def)
  have obj: "typeof (heap w0) ?options = ''object''"
    using valid w0 by (auto simp: alloc_def obj_at_def empty_object_def)
  have sim: "property (heap w0) ?options ''simple'' = simple"
    using w0 simple by (auto simp: alloc_def field_def obj_at_def empty_object_def)
  have unfold: "Database_pragma H this (VStr s) options w =
          (if truthy simple
           then (case Statement_pluck H stmt VUndefined w1 of
                   (Throw e, w2) \<Rightarrow> (Throw e, w2)
                 | (Return plucked, w2) \<Rightarrow> Statement_get H plucked [] w2)
           else Statement_all H stmt [] w1)"
  proof (cases "nullish options")
    case True
    then show ?thesis using obj sim w0 prepared by (simp add: Database_pragma_def alloc_def)
  next
    case False
    then show ?thesis using obj sim w0 prepared by (simp add: Database_pragma_def)
  qed
  have tr1: "trace w1 = trace w @ [(h, ''prepare'', [VStr (''PRAGMA '' @ s)])]"
    using Database_prepare_trace [OF db prepared] tr0 by simp
  have simple_path: "plucked = stmt
      \<and> Database_pragma H this (VStr s) options w = Statement_get H stmt [] w2
      \<and> (property (heap w1) stmt ''stmt'' = VNative sh \<and> property (heap w2) stmt ''stmt'' = VNative sh
           \<longrightarrow> trace (snd (Database_pragma H this (VStr s) options w))
                 = trace w @ [(h, ''prepare'', [VStr (''PRAGMA '' @ s)]),
                              (sh, ''pluck'', [VUndefined]), (sh, ''get'', [])])"
    if t: "truthy simple" and p: "Statement_pluck H stmt VUndefined w1 = (Return plucked, w2)"
  proof -
    have eq: "Database_pragma H this (VStr s) options w = Statement_get H stmt [] w2"
      using t p unfold Statement_pluck_this [OF p] by simp
    have "trace (snd (Statement_get H stmt [] w2))
            = trace w @ [(h, ''prepare'', [VStr (''PRAGMA '' @ s)]),
                         (sh, ''pluck'', [VUndefined]), (sh, ''get'', [])]"
      if s1: "property (heap w1) stmt ''stmt'' = VNative sh"
        and s2: "property (heap w2) stmt ''stmt'' = VNative sh"
      using Statement_pluck_trace [OF s1 p]
        Statement_get_trace [OF s2, of H "[]" "fst (Statement_get H stmt [] w2)"
          "snd (Statement_get H stmt [] w2)"] tr1
      by simp
    then show ?thesis using eq Statement_pluck_this [OF p] by simp
  qed
  have pluck_fails: "Database_pragma H this (VStr s) options w = (Throw e, w2)"
    if "truthy simple" "Statement_pluck H stmt VUndefined w1 = (Throw e, w2)"
    using that unfold by simp
  have all_path: "Database_pragma H this (VStr s) options w = Statement_all H stmt [] w1
      \<and> (property (heap w1) stmt ''stmt'' = VNative sh
           \<longrightarrow> trace (snd (Database_pragma H this (VStr s) options w))
                 = trace w @ [(h, ''prepare'', [VStr (''PRAGMA '' @ s)]), (sh, ''all'', [])])"
    if f: "\<not> truthy simple"
  proof -
    have eq: "Database_pragma H this (VStr s) options w = Statement_all H stmt [] w1"
      using f unfold by simp
    have "trace (snd (Statement_all H stmt [] w1))
            = trace w @ [(h, ''prepare'', [VStr (''PRAGMA '' @ s)]), (sh, ''all'', [])]"
      if s1: "property (heap w1) stmt ''stmt'' = VNative sh"
      using Statement_all_trace [OF s1, of H "[]" "fst (Statement_all H stmt [] w1)"
          "snd (Statement_all H stmt [] w1)"] tr1
      by simp
    then show ?thesis using eq by simp
  qed
  have bad_source: "raises_TypeError ''Expected first argument to be a string'' w
                      (Database_pragma H this source opts w)"
    if "typeof (heap w) source \<noteq> ''string''"
    using that by (simp add: pragma_source_TypeError raises_throw_TypeError raises_throw_TypeError_alloc)
  have bad_options: "raises_TypeError ''Expected second argument to be an options object'' w
                       (Database_pragma H this (VStr s) opts w)"
    if "\<not> nullish opts" "typeof (heap w) opts \<noteq> ''object''"
    using that by (simp add: pragma_options_TypeError raises_throw_TypeError)
  show ?thesis using tr1 simple_path pluck_fails all_path bad_source bad_options by blast
qed

theorem pragma_prepares_and_reads_witness:
  "Database_pragma (sample_engine permissive) (VRef 0) (VStr ''busy_timeout'') (VRef 4)
     sample_world
   = (Return (VNum (Finite 5000)),
      \<lparr>heap = heap sample_world @ [Statement (VNative 1)], engine = 3,
       trace = [(0, ''prepare'', [VStr ''PRAGMA busy_timeout'']),
                (1, ''pluck'', [VUndefined]), (1, ''get'', [])]\<rparr>)
   \<and> Database_pragma (sample_engine permissive) (VRef 0) (VStr ''table_info(users)'')
       VUndefined sample_world
   = (Return (VRef 9),
      \<lparr>heap = heap sample_world @ [empty_object, Statement (VNative 1),
                                   \<lparr>kind = Instance ''Array'', props = []\<rparr>],
       engine = 2,
       trace = [(0, ''prepare'', [VStr ''PRAGMA table_info(users)'']), (1, ''all'', [])]\<rparr>)
   \<and> raises_TypeError ''Expected first argument to be a string'' sample_world
       (Database_pragma (sample_engine permissive) (VRef 0) (VNum (Finite 1)) VUndefined
          sample_world)
   \<and> raises_TypeError ''Expected second argument to be an options object'' sample_world
       (Database_pragma (sample_engine permissive) (VRef 0) (VStr ''busy_timeout'')
          (VStr ''simple'') sample_world)"
proof -
  let ?H = "sample_engine permissive"
  let ?h1 = "heap sample_world @ [Statement (VNative 1)]"
  let ?w1 = "\<lparr>heap = ?h1, engine = Suc 0, trace = [(0, ''prepare'', [VStr ''PRAGMA busy_timeout''])]\<rparr>"
  let ?w2 = "\<lparr>heap = ?h1, engine = Suc (Suc 0),
              trace = [(0, ''prepare'', [VStr ''PRAGMA busy_timeout'']), (1, ''pluck'', [VUndefined])]\<rparr>"
  let ?g1 = "heap sample_world @ [empty_object, Statement (VNative 1)]"
  let ?v1 = "\<lparr>heap = ?g1, engine = Suc 0,
              trace = [(0, ''prepare'', [VStr ''PRAGMA table_info(users)''])]\<rparr>"
  have opts: "typeof (heap sample_world) (VRef 4) = ''object''"
    "property (heap sample_world) (VRef 4) ''simple'' = VBool True"
    by (simp_all add: sample_world_def obj_at_def field_def data_prop_def)
  have prepared: "Database_prepare ?H (VRef 0) (VStr (''PRAGMA '' @ ''busy_timeout'')) sample_world
                    = (Return (VRef 7), ?w1)"
    using sample_prepare_ok [of permissive "''PRAGMA busy_timeout''" "heap sample_world" 0 "[]"]
      sample_db0 sample_world_eq
    by (simp add: sample_world_heap)
  have stmt: "property ?h1 (VRef 7) ''stmt'' = VNative 1"
    by (simp add: field_def obj_at_def sample_world_heap nth_append Statement_def)
  have plucked: "Statement_pluck ?H (VRef 7) VUndefined ?w1 = (Return (VRef 7), ?w2)"
    using stmt
    by (simp add: Statement_pluck_def invoke_native_def sample_engine_def sample_base_def
          sample_native_def)
  have got: "Statement_get ?H (VRef 7) [] ?w2
               = (Return (VNum (Finite 5000)),
                  \<lparr>heap = ?h1, engine = 3,
                   trace = [(0, ''prepare'', [VStr ''PRAGMA busy_timeout'']),
                            (1, ''pluck'', [VUndefined]), (1, ''get'', [])]\<rparr>)"
    using stmt
    by (simp add: Statement_get_def invoke_native_def sample_engine_def sample_base_def
          sample_native_def numeral_3_eq_3)
  have prepared': "Database_prepare ?H (VRef 0) (VStr (''PRAGMA '' @ ''table_info(users)''))
                     (snd (alloc empty_object sample_world))
                    = (Return (VRef 8), ?v1)"
    using sample_prepare_ok [of permissive "''PRAGMA table_info(users)''"
            "heap sample_world @ [empty_object]" 0 "[]"] sample_db [of "[empty_object]"]
    by (simp add: sample_world_heap alloc_def sample_world_def)
  have stmt': "property ?g1 (VRef 8) ''stmt'' = VNative 1"
    by (simp add: field_def obj_at_def sample_world_heap nth_append Statement_def)
  have all: "Statement_all ?H (VRef 8) [] ?v1
               = (Return (VRef 9),
                  \<lparr>heap = ?g1 @ [\<lparr>kind = Instance ''Array'', props = []\<rparr>], engine = 2,
                   trace = [(0, ''prepare'', [VStr ''PRAGMA table_info(users)'']), (1, ''all'', [])]\<rparr>)"
    using stmt'
    by (simp add: Statement_all_def invoke_native_def sample_engine_def sample_base_def
          sample_native_def numeral_2_eq_2 sample_world_heap)
  have db: "property (heap sample_world) (VRef 0) ''db'' = VNative 0"
    "property (heap (snd (alloc empty_object sample_world))) (VRef 0) ''db'' = VNative 0"
    using sample_db0 sample_db [of "[empty_object]"] by (simp_all add: alloc_def)
  have first: "Database_pragma ?H (VRef 0) (VStr ''busy_timeout'') (VRef 4) sample_world
                 = Statement_get ?H (VRef 7) [] ?w2"
    using pragma_prepares_and_reads [of "VRef 4" sample_world sample_world "VBool True" ?H "VRef 0"
            "''busy_timeout''" "VRef 7" ?w1 0 "VRef 7" ?w2]
      opts prepared plucked db(1)
    by (simp add: nullish_def)
  have second: "Database_pragma ?H (VRef 0) (VStr ''table_info(users)'') VUndefined sample_world
                 = Statement_all ?H (VRef 8) [] ?v1"
    using pragma_prepares_and_reads [of VUndefined sample_world "snd (alloc empty_object sample_world)"
            VUndefined ?H "VRef 0" "''table_info(users)''" "VRef 8" ?v1 0]
      prepared' db(2)
    by (simp add: nullish_def)
  have third: "raises_TypeError ''Expected first argument to be a string'' sample_world
       (Database_pragma ?H (VRef 0) (VNum (Finite 1)) VUndefined sample_world)"
    using pragma_prepares_and_reads [of "VRef 4" sample_world sample_world "VBool True" ?H "VRef 0"
            "''busy_timeout''" "VRef 7" ?w1 0 _ _ _ _ "VNum (Finite 1)" VUndefined]
      opts prepared db(1)
    by (simp add: nullish_def)
  have fourth: "raises_TypeError ''Expected second argument to be an options object'' sample_world
       (Database_pragma ?H (VRef 0) (VStr ''busy_timeout'') (VStr ''simple'') sample_world)"
    using pragma_prepares_and_reads [of "VRef 4" sample_world sample_world "VBool True" ?H "VRef 0"
            "''busy_timeout''" "VRef 7" ?w1 0 _ _ _ _ _ "VStr ''simple''"]
      opts prepared db(1)
    by (simp add: nullish_def)
  show ?thesis using first second third fourth got all by simp
qed

text \<open>
  Claim C7. Take a mode variant built by \<open>transaction(fn)\<close>, with mode \<open>M\<close>. When
  \<open>exec("BEGIN " + M)\<close> throws \<open>e\<close>, the call of the variant throws \<open>e\<close> in the world that
  \<open>exec\<close> left. The user function is not called: the outcome is the same whatever the
  host would do on a call. The only call made on the connection is the \<open>BEGIN\<close>: no
  \<open>COMMIT\<close> and no \<open>ROLLBACK\<close>.
\<close>

theorem begin_failure_propagates:
  assumes variant: "kind (obj_at (heap w) f) = Transaction mode fn db"
    and started: "Database_exec H db (VStr (''BEGIN '' @ mode)) w = (Throw e, w1)"
  shows "invoke H (VRef f) args w = (Throw e, w1)
         \<and> invoke (H\<lparr>call := c\<rparr>) (VRef f) args w = (Throw e, w1)
         \<and> (property (heap w) db ''db'' = VNative h
              \<longrightarrow> trace w1 = trace w @ [(h, ''exec'', [VStr (''BEGIN '' @ mode)])])"
  using variant started Database_exec_trace [of w db h H "VStr (''BEGIN '' @ mode)" "Throw e" w1]
  by (simp add: invoke_def wrapTxn_apply_def Database_exec_call)

theorem begin_failure_propagates_witness:
  "invoke (sample_engine (denying ''BEGIN EXCLUSIVE'')) (VRef 6) [] sample_world
     = (Throw (VRef 9),
        \<lparr>heap = heap sample_world @ [Error auth_denied, auth_denied_data,
                   SqliteError (VStr ''Authorization denied by JS authorizer'')
                     (VStr ''SQLITE_AUTH'') (VNum (Finite 23))],
         engine = 0, trace = [(0, ''exec'', [VStr ''BEGIN EXCLUSIVE''])]\<rparr>)"
proof -
  let ?H = "sample_engine (denying ''BEGIN EXCLUSIVE'')"
  have started: "Database_exec ?H (VRef 0) (VStr (''BEGIN '' @ ''EXCLUSIVE'')) sample_world
       = (Throw (VRef 9),
          \<lparr>heap = heap sample_world @ [Error auth_denied, auth_denied_data,
                   SqliteError (VStr ''Authorization denied by JS authorizer'')
                     (VStr ''SQLITE_AUTH'') (VNum (Finite 23))],
           engine = 0, trace = [(0, ''exec'', [VStr ''BEGIN EXCLUSIVE''])]\<rparr>)"
    using sample_exec_denied [of "denying ''BEGIN EXCLUSIVE''" "''BEGIN EXCLUSIVE''"
            "heap sample_world" 0 "[]"] sample_db0 sample_world_eq
    by (simp add: sample_world_heap)
  show ?thesis
    using begin_failure_propagates [OF sample_variants(2) started] by simp
qed

text \<open>
  Claim C8. \<open>transaction(fn)\<close> with an \<open>fn\<close> that is not of type \<open>function\<close>, \<open>pragma\<close> with a
  \<open>source\<close> that is not of type \<open>string\<close>, and \<open>pragma\<close> with an \<open>options\<close> that is given
  (not \<open>null\<close>, not \<open>undefined\<close>: these two stand for \<open>{}\<close>) and is not of type \<open>object\<close>,
  each throw a fresh object that is exactly the \<open>TypeError\<close> the facade constructs (when
  both arguments of \<open>pragma\<close> are wrong, the one for \<open>source\<close>). The engine's state is untouched, no call on a native handle is
  made, and the outcome does not depend on the host, so \<open>convertError\<close> plays no part. A
  \<open>TypeError\<close> has the one property \<open>message\<close>: no \<open>code\<close>, no \<open>rawCode\<close>.
\<close>

theorem argument_errors_precede_engine:
  "(typeof (heap w) fn \<noteq> ''function'' \<longrightarrow>
      raises_TypeError ''Expected first argument to be a function'' w
        (Database_transaction this fn w))
   \<and> (typeof (heap w) source \<noteq> ''string'' \<longrightarrow>
        raises_TypeError ''Expected first argument to be a string'' w
          (Database_pragma H this source options w))
   \<and> (typeof (heap w) source = ''string''
        \<and> \<not> nullish options \<and> typeof (heap w) options \<noteq> ''object'' \<longrightarrow>
        raises_TypeError ''Expected second argument to be an options object'' w
          (Database_pragma H this source options w))
   \<and> map fst (props (TypeError msg)) = [''message'']"
proof -
  have "raises_TypeError ''Expected second argument to be an options object'' w
          (Database_pragma H this source options w)"
    if "typeof (heap w) source = ''string''" "\<not> nullish options"
      "typeof (heap w) options \<noteq> ''object''"
  proof -
    from that(1) obtain s where "source = VStr s" by (auto simp: typeof_string)
    then show ?thesis
      using that by (simp add: pragma_options_TypeError raises_throw_TypeError)
  qed
  then show ?thesis
    by (simp add: transaction_TypeError pragma_source_TypeError
          raises_throw_TypeError raises_throw_TypeError_alloc TypeError_def)
qed

theorem argument_errors_precede_engine_witness:
  "raises_TypeError ''Expected first argument to be a function'' sample_world
     (Database_transaction (VRef 0) (VRef 4) sample_world)
   \<and> raises_TypeError ''Expected first argument to be a string'' sample_world
     (Database_pragma (sample_engine hostile) (VRef 0) VNull (VRef 4) sample_world)
   \<and> raises_TypeError ''Expected second argument to be an options object'' sample_world
     (Database_pragma (sample_engine hostile) (VRef 0) (VStr ''busy_timeout'') (VRef 1)
        sample_world)"
proof -
  have "typeof (heap sample_world) (VRef 4) \<noteq> ''function''"
    "typeof (heap sample_world) VNull \<noteq> ''string''"
    "typeof (heap sample_world) (VStr ''busy_timeout'') = ''string''"
    "\<not> nullish (VRef 1)" "typeof (heap sample_world) (VRef 1) \<noteq> ''object''"
    by (simp_all add: sample_world_def obj_at_def nullish_def)
  then show ?thesis
    using argument_errors_precede_engine [of sample_world "VRef 4" "VRef 0" VNull
            "sample_engine hostile" "VRef 4"]
          argument_errors_precede_engine [of sample_world "VRef 4" "VRef 0" "VStr ''busy_timeout''"
            "sample_engine hostile" "VRef 1"]
    by simp
qed

text \<open>
  Claim C9. For a callable \<open>fn\<close>, \<open>transaction(fn)\<close> allocates four functions, at the
  addresses \<open>n\<close> to \<open>n + 3\<close>: the closures of \<open>wrapTxn\<close> for the modes empty, \<open>DEFERRED\<close>,
  \<open>IMMEDIATE\<close> and \<open>EXCLUSIVE\<close>, each over \<open>fn\<close> and the connection \<open>this\<close>. Each of the four
  has the own properties \<open>default\<close>, \<open>deferred\<close>, \<open>immediate\<close> and \<open>exclusive\<close>, which refer
  to the four functions, and \<open>database\<close>, which refers to \<open>this\<close>; all five are
  non-writable. The function returned is the one of the empty mode, and calling any of
  the four runs the body of \<open>wrapTxn\<close> with that function's own mode. Nothing else
  changes: objects that existed, the engine's state, the trace.
\<close>

theorem transaction_variants:
  assumes callable: "typeof (heap w) fn = ''function''"
    and n: "n = length (heap w)"
    and w': "w' = snd (Database_transaction this fn w)"
  shows "Database_transaction this fn w = (Return (VRef n), w')
         \<and> take n (heap w') = heap w \<and> length (heap w') = n + 4
         \<and> engine w' = engine w \<and> trace w' = trace w
         \<and> kind (obj_at (heap w') n) = Transaction [] fn this
         \<and> kind (obj_at (heap w') (n + 1)) = Transaction ''DEFERRED'' fn this
         \<and> kind (obj_at (heap w') (n + 2)) = Transaction ''IMMEDIATE'' fn this
         \<and> kind (obj_at (heap w') (n + 3)) = Transaction ''EXCLUSIVE'' fn this
         \<and> (\<forall>v \<in> {n, n + 1, n + 2, n + 3}.
               typeof (heap w') (VRef v) = ''function''
               \<and> own (heap w') v ''default'' = Some (readonly (VRef n))
               \<and> own (heap w') v ''deferred'' = Some (readonly (VRef (n + 1)))
               \<and> own (heap w') v ''immediate'' = Some (readonly (VRef (n + 2)))
               \<and> own (heap w') v ''exclusive'' = Some (readonly (VRef (n + 3)))
               \<and> own (heap w') v ''database'' = Some ((readonly this)\<lparr>enumerable := True\<rparr>))
         \<and> invoke H (VRef n) args w' = wrapTxn_apply H [] fn this args w'
         \<and> invoke H (VRef (n + 1)) args w' = wrapTxn_apply H ''DEFERRED'' fn this args w'
         \<and> invoke H (VRef (n + 2)) args w' = wrapTxn_apply H ''IMMEDIATE'' fn this args w'
         \<and> invoke H (VRef (n + 3)) args w' = wrapTxn_apply H ''EXCLUSIVE'' fn this args w'"
proof -
  have eq: "Database_transaction this fn w =
              (Return (VRef n),
               w\<lparr>heap := heap w @ [linked fn this [] n, linked fn this ''DEFERRED'' n,
                                   linked fn this ''IMMEDIATE'' n, linked fn this ''EXCLUSIVE'' n]\<rparr>)"
    using transaction_heap [OF callable] n by simp
  then have hp: "heap w' = heap w @ [linked fn this [] n, linked fn this ''DEFERRED'' n,
                                    linked fn this ''IMMEDIATE'' n, linked fn this ''EXCLUSIVE'' n]"
    and et: "engine w' = engine w" "trace w' = trace w"
    using w' by simp_all
  have at: "obj_at (heap w') n = linked fn this [] n"
    "obj_at (heap w') (n + 1) = linked fn this ''DEFERRED'' n"
    "obj_at (heap w') (n + 2) = linked fn this ''IMMEDIATE'' n"
    "obj_at (heap w') (n + 3) = linked fn this ''EXCLUSIVE'' n"
    using n by (simp_all add: hp obj_at_def nth_append)
  have props: "map_of (props (linked fn this mode n)) ''default'' = Some (readonly (VRef n))"
    "map_of (props (linked fn this mode n)) ''deferred'' = Some (readonly (VRef (n + 1)))"
    "map_of (props (linked fn this mode n)) ''immediate'' = Some (readonly (VRef (n + 2)))"
    "map_of (props (linked fn this mode n)) ''exclusive'' = Some (readonly (VRef (n + 3)))"
    "map_of (props (linked fn this mode n)) ''database'' = Some ((readonly this)\<lparr>enumerable := True\<rparr>)"
    "kind (linked fn this mode n) = Transaction mode fn this"
    for mode
    by (simp_all add: linked_def wrapTxn_def)
  have len: "take n (heap w') = heap w" "length (heap w') = n + 4"
    using n by (simp_all add: hp)
  have res: "Database_transaction this fn w = (Return (VRef n), w')"
    using eq w' by simp
  have calls: "invoke H (VRef n) args w' = wrapTxn_apply H [] fn this args w'"
    "invoke H (VRef (n + 1)) args w' = wrapTxn_apply H ''DEFERRED'' fn this args w'"
    "invoke H (VRef (n + 2)) args w' = wrapTxn_apply H ''IMMEDIATE'' fn this args w'"
    "invoke H (VRef (n + 3)) args w' = wrapTxn_apply H ''EXCLUSIVE'' fn this args w'"
    by (simp_all only: invoke_def jsval.case at props kind.case)
  show ?thesis
    unfolding own_def typeof.simps
    by (simp only: res len et at props calls kind.case ball_simps simp_thms)
qed

theorem transaction_variants_witness:
  "Database_transaction (VRef 0) (VRef 1) sample_world
     = (Return (VRef 7), snd (Database_transaction (VRef 0) (VRef 1) sample_world))
   \<and> length (heap (snd (Database_transaction (VRef 0) (VRef 1) sample_world))) = 11
   \<and> kind (obj_at (heap (snd (Database_transaction (VRef 0) (VRef 1) sample_world))) 9)
       = Transaction ''IMMEDIATE'' (VRef 1) (VRef 0)
   \<and> own (heap (snd (Database_transaction (VRef 0) (VRef 1) sample_world))) 9 ''default''
       = Some (readonly (VRef 7))
   \<and> own (heap (snd (Database_transaction (VRef 0) (VRef 1) sample_world))) 7 ''exclusive''
       = Some (readonly (VRef 10))
   \<and> own (heap (snd (Database_transaction (VRef 0) (VRef 1) sample_world))) 10 ''database''
       = Some \<lparr>pvalue = VRef 0, writable = False, enumerable = True, configurable = False\<rparr>"
proof -
  have callable: "typeof (heap sample_world) (VRef 1) = ''function''"
    by (simp add: sample_world_def obj_at_def)
  show ?thesis
    using transaction_variants [OF callable, of 7 "snd (Database_transaction (VRef 0) (VRef 1) sample_world)"
            "VRef 0"]
    by (simp add: sample_world_heap readonly_def)
qed

text \<open>
  Claim C10. \<open>convertError(null)\<close> and \<open>convertError(undefined)\<close> throw a fresh TypeError
  (reading \<open>message\<close> fails), so when the engine call made by \<open>run\<close>, \<open>get\<close>, \<open>all\<close>,
  \<open>iterate\<close>, \<open>prepare\<close> or \<open>exec\<close> throws \<open>null\<close> or \<open>undefined\<close>, the method throws that
  TypeError and not the value the engine threw. On every other value \<open>convertError\<close>
  returns normally.
\<close>

theorem nullish_failure_raises_TypeError:
  "(nullish err \<longrightarrow>
      convertError H w1 err =
        (Throw (VRef (length (heap w1))), w1\<lparr>heap := heap w1 @ [message_TypeError]\<rparr>)
      \<and> (invoke_native H (property (heap w) this ''stmt'') ''run'' args w = (Throw err, w1)
            \<longrightarrow> Statement_run H this args w =
                  (Throw (VRef (length (heap w1))), w1\<lparr>heap := heap w1 @ [message_TypeError]\<rparr>))
      \<and> (invoke_native H (property (heap w) this ''stmt'') ''get'' args w = (Throw err, w1)
            \<longrightarrow> Statement_get H this args w =
                  (Throw (VRef (length (heap w1))), w1\<lparr>heap := heap w1 @ [message_TypeError]\<rparr>))
      \<and> (invoke_native H (property (heap w) this ''stmt'') ''all'' args w = (Throw err, w1)
            \<longrightarrow> Statement_all H this args w =
                  (Throw (VRef (length (heap w1))), w1\<lparr>heap := heap w1 @ [message_TypeError]\<rparr>))
      \<and> (invoke_native H (property (heap w) this ''stmt'') ''iterate'' args w = (Throw err, w1)
            \<longrightarrow> Statement_iterate H this args w =
                  (Throw (VRef (length (heap w1))), w1\<lparr>heap := heap w1 @ [message_TypeError]\<rparr>))
      \<and> (invoke_native H (property (heap w) this ''db'') ''prepare'' [sql] w = (Throw err, w1)
            \<longrightarrow> Database_prepare H this sql w =
                  (Throw (VRef (length (heap w1))), w1\<lparr>heap := heap w1 @ [message_TypeError]\<rparr>))
      \<and> (invoke_native H (property (heap w) this ''db'') ''exec'' [sql] w = (Throw err, w1)
            \<longrightarrow> Database_exec H this sql w =
                  (Throw (VRef (length (heap w1))), w1\<lparr>heap := heap w1 @ [message_TypeError]\<rparr>)))
   \<and> (\<not> nullish err \<longrightarrow> (\<exists>v w2. convertError H w1 err = (Return v, w2)))"
proof -
  have t: "throw_convertError H w1 err =
             (Throw (VRef (length (heap w1))), w1\<lparr>heap := heap w1 @ [message_TypeError]\<rparr>)"
    if "nullish err"
    using convertError_nullish [OF that, of H w1]
    by (simp add: throw_convertError_def)
  show ?thesis
    using t convertError_nullish [of err H w1] convertError_total [of err H w1]
    by (auto simp: Statement_run_def Statement_get_def Statement_all_def
          Statement_iterate_def Database_prepare_def Database_exec_def)
qed

theorem nullish_failure_raises_TypeError_witness:
  "Statement_get (throwing_engine VNull) (VRef 3) [] sample_world
     = (Throw (VRef 7),
        \<lparr>heap = heap sample_world @ [message_TypeError], engine = 0, trace = [(1, ''get'', [])]\<rparr>)
   \<and> Database_prepare (throwing_engine VUndefined) (VRef 0) (VStr ''SELECT 1'') sample_world
     = (Throw (VRef 7),
        \<lparr>heap = heap sample_world @ [message_TypeError], engine = 0,
         trace = [(0, ''prepare'', [VStr ''SELECT 1''])]\<rparr>)
   \<and> (\<exists>v w2. convertError (throwing_engine VNull) sample_world (VStr ''boom'') = (Return v, w2))"
proof -
  have get: "invoke_native (throwing_engine VNull) (property (heap sample_world) (VRef 3) ''stmt'')
               ''get'' [] sample_world
             = (Throw VNull, \<lparr>heap = heap sample_world, engine = 0, trace = [(1, ''get'', [])]\<rparr>)"
    by (simp add: invoke_native_def throwing_engine_def sample_world_def field_def obj_at_def
          Statement_def)
  have prepare: "invoke_native (throwing_engine VUndefined) (property (heap sample_world) (VRef 0) ''db'')
               ''prepare'' [VStr ''SELECT 1''] sample_world
             = (Throw VUndefined,
                \<lparr>heap = heap sample_world, engine = 0, trace = [(0, ''prepare'', [VStr ''SELECT 1''])]\<rparr>)"
    by (simp add: invoke_native_def throwing_engine_def sample_world_def field_def obj_at_def
          data_prop_def)
  show ?thesis
    using nullish_failure_raises_TypeError [of VNull "throwing_engine VNull"
            "\<lparr>heap = heap sample_world, engine = 0, trace = [(1, ''get'', [])]\<rparr>" sample_world
            "VRef 3" "[]"]
          nullish_failure_raises_TypeError [of VUndefined "throwing_engine VUndefined"
            "\<lparr>heap = heap sample_world, engine = 0, trace = [(0, ''prepare'', [VStr ''SELECT 1''])]\<rparr>"
            sample_world "VRef 0" _ "VStr ''SELECT 1''"]
          nullish_failure_raises_TypeError [of "VStr ''boom''" "throwing_engine VNull" sample_world]
          get prepare
    by (simp add: nullish_def sample_world_heap)
qed


end
